theory Spec2Isabelle
  imports Main
begin

section \<open>JavaScript values and string primitives\<close>

text \<open>
  The script \<^verbatim>\<open>site/scripts/extract-docs.mjs\<close> works on untyped values that come out
  of \<^verbatim>\<open>JSON.parse\<close>. They are modelled by the datatype \<open>json\<close>; the value
  \<^verbatim>\<open>undefined\<close> (a property that is not there) is \<open>None\<close> of \<open>json option\<close>.
  A number is carried as its canonical rendering, the result of
  \<^verbatim>\<open>Number.prototype.toString\<close>. An object is the list of its own properties in the
  order \<^verbatim>\<open>Object.entries\<close> enumerates them.

  A string is the \<open>char list\<close> of its UTF-8 bytes, so that the content of a file and the
  text decoded from it are values of one type; a surrogate code unit without its partner
  is the three bytes that the same scheme gives its number. All the script looks at in a
  string are ASCII characters, except for the white space of \<^verbatim>\<open>\s\<close> and \<^verbatim>\<open>trim()\<close>, the
  line terminators that \<^verbatim>\<open>.\<close> refuses and the code units that \<^verbatim>\<open>Object.entries\<close>
  enumerates; these are byte sequences here.
\<close>

datatype json =
    JNull
  | JBool bool
  | JNum string
  | JStr string
  | JArr "json list"
  | JObj "(string \<times> json) list"

datatype error = TypeError | ZipError | ReadError

text \<open>Truthiness, as tested by \<^verbatim>\<open>if (v)\<close>, \<^verbatim>\<open>v || d\<close> and \<^verbatim>\<open>v ? a : b\<close>.\<close>

fun truthy :: "json \<Rightarrow> bool" where
  "truthy JNull = False"
| "truthy (JBool b) = b"
| "truthy (JNum s) = (s \<noteq> ''0'')"
| "truthy (JStr s) = (s \<noteq> [])"
| "truthy (JArr xs) = True"
| "truthy (JObj ms) = True"

definition truthy_opt :: "json option \<Rightarrow> bool" where
  "truthy_opt v = (case v of None \<Rightarrow> False | Some x \<Rightarrow> truthy x)"

text \<open>\<^verbatim>\<open>parts.join(sep)\<close> on a list of strings.\<close>

fun join_strings :: "string \<Rightarrow> string list \<Rightarrow> string" where
  "join_strings sep [] = []"
| "join_strings sep [x] = x"
| "join_strings sep (x # y # ys) = x @ sep @ join_strings sep (y # ys)"

text \<open>
  String conversion of a value, as a template literal and \<^verbatim>\<open>Array.prototype.join\<close>
  perform it. Inside \<^verbatim>\<open>join\<close> the elements \<^verbatim>\<open>null\<close> and \<^verbatim>\<open>undefined\<close> give the
  empty string; an array converts to its elements joined by a comma; an object converts
  by the \<^verbatim>\<open>toString\<close> it inherits.
\<close>

fun js_to_string :: "json \<Rightarrow> string"
  and js_join_elem :: "json \<Rightarrow> string" where
  "js_to_string JNull = ''null''"
| "js_to_string (JBool b) = (if b then ''true'' else ''false'')"
| "js_to_string (JNum s) = s"
| "js_to_string (JStr s) = s"
| "js_to_string (JArr xs) = join_strings '','' (map js_join_elem xs)"
| "js_to_string (JObj ms) = ''[object Object]''"
| "js_join_elem v = (if v = JNull then [] else js_to_string v)"

text \<open>
  An object that has a property \<^verbatim>\<open>toString\<close> of its own does not reach the inherited
  method. No value out of \<^verbatim>\<open>JSON.parse\<close> is a function, so the conversion finds nothing
  to call that gives a primitive and throws a \<^verbatim>\<open>TypeError\<close>; so does the conversion of
  an array with such an object among its elements.
\<close>

fun stringable :: "json \<Rightarrow> bool" where
  "stringable (JArr xs) = list_all stringable xs"
| "stringable (JObj ms) = (\<not> list_ex (\<lambda>m. fst m = ''toString'') ms)"
| "stringable v = True"

definition to_string :: "json \<Rightarrow> error + string" where
  "to_string v = (if stringable v then Inr (js_to_string v) else Inl TypeError)"

definition to_string_opt :: "json option \<Rightarrow> error + string" where
  "to_string_opt v = (case v of None \<Rightarrow> Inr ''undefined'' | Some x \<Rightarrow> to_string x)"

definition join_elem_opt :: "json option \<Rightarrow> string" where
  "join_elem_opt v = (case v of None \<Rightarrow> [] | Some x \<Rightarrow> js_join_elem x)"

definition joinable :: "json option \<Rightarrow> bool" where
  "joinable v = (case v of None \<Rightarrow> True | Some x \<Rightarrow> stringable x)"

definition js_join :: "string \<Rightarrow> json option list \<Rightarrow> error + string" where
  "js_join sep parts =
     (if list_all joinable parts then Inr (join_strings sep (map join_elem_opt parts))
      else Inl TypeError)"

text \<open>
  White space of \<^verbatim>\<open>\s\<close> and \<^verbatim>\<open>trim()\<close>. In one byte: tab, line feed, vertical tab, form
  feed, carriage return and space. In two bytes: U+00A0. In three bytes: U+1680, U+2000 to
  U+200A, U+2028, U+2029, U+202F, U+205F, U+3000 and U+FEFF.
\<close>

definition is_space :: "char \<Rightarrow> bool" where
  "is_space c = (c = CHR 0x09 \<or> c = CHR 0x0A \<or> c = CHR 0x0B \<or> c = CHR 0x0C
                 \<or> c = CHR 0x0D \<or> c = CHR '' '')"

definition is_space2 :: "char \<Rightarrow> char \<Rightarrow> bool" where
  "is_space2 a b = (a = CHR 0xC2 \<and> b = CHR 0xA0)"

definition is_space3 :: "char \<Rightarrow> char \<Rightarrow> char \<Rightarrow> bool" where
  "is_space3 a b c =
     (a = CHR 0xE1 \<and> b = CHR 0x9A \<and> c = CHR 0x80
      \<or> a = CHR 0xE2 \<and> b = CHR 0x80
          \<and> (0x80 \<le> (of_char c :: nat) \<and> (of_char c :: nat) \<le> 0x8A
              \<or> c = CHR 0xA8 \<or> c = CHR 0xA9 \<or> c = CHR 0xAF)
      \<or> a = CHR 0xE2 \<and> b = CHR 0x81 \<and> c = CHR 0x9F
      \<or> a = CHR 0xE3 \<and> b = CHR 0x80 \<and> c = CHR 0x80
      \<or> a = CHR 0xEF \<and> b = CHR 0xBB \<and> c = CHR 0xBF)"

text \<open>The number of bytes of the white space character a string begins with, and of the
  one it ends with, given the string reversed; 0 when there is none.\<close>

fun space_len :: "string \<Rightarrow> nat" where
  "space_len (a # b # c # cs) =
     (if is_space a then 1 else if is_space2 a b then 2 else if is_space3 a b c then 3 else 0)"
| "space_len [a, b] = (if is_space a then 1 else if is_space2 a b then 2 else 0)"
| "space_len [a] = (if is_space a then 1 else 0)"
| "space_len [] = 0"

fun space_len_back :: "string \<Rightarrow> nat" where
  "space_len_back (c # b # a # cs) =
     (if is_space c then 1 else if is_space2 b c then 2 else if is_space3 a b c then 3 else 0)"
| "space_len_back [c, b] = (if is_space c then 1 else if is_space2 b c then 2 else 0)"
| "space_len_back [c] = (if is_space c then 1 else 0)"
| "space_len_back [] = 0"

text \<open>Dropping the white space a string begins with; \<open>k\<close> counts the bytes still to drop
  of the character at hand.\<close>

fun drop_spaces :: "(string \<Rightarrow> nat) \<Rightarrow> nat \<Rightarrow> string \<Rightarrow> string" where
  "drop_spaces len k [] = []"
| "drop_spaces len (Suc k) (c # cs) = drop_spaces len k cs"
| "drop_spaces len 0 (c # cs) =
     (if 0 < len (c # cs) then drop_spaces len (len (c # cs) - 1) cs else c # cs)"

definition trim :: "string \<Rightarrow> string" where
  "trim s = rev (drop_spaces space_len_back 0 (rev (drop_spaces space_len 0 s)))"

text \<open>\<^verbatim>\<open>s.replace(/\s+/g, ' ')\<close>: the flag says whether the previous character belonged
  to a run of white space that has already been replaced, and \<open>k\<close> counts the bytes still
  to drop of the white space character at hand.\<close>

fun collapse_from :: "bool \<Rightarrow> nat \<Rightarrow> string \<Rightarrow> string" where
  "collapse_from in_run k [] = []"
| "collapse_from in_run (Suc k) (c # cs) = collapse_from in_run k cs"
| "collapse_from in_run 0 (c # cs) =
     (if 0 < space_len (c # cs) then
        (if in_run then [] else '' '') @ collapse_from True (space_len (c # cs) - 1) cs
      else c # collapse_from False 0 cs)"

definition collapse_ws :: "string \<Rightarrow> string" where
  "collapse_ws s = collapse_from False 0 s"

text \<open>\<^verbatim>\<open>s.replace(/c/g, r)\<close> for a single character \<open>c\<close>.\<close>

definition replace_char :: "char \<Rightarrow> string \<Rightarrow> string \<Rightarrow> string" where
  "replace_char c r s = concat (map (\<lambda>x. if x = c then r else [x]) s)"

text \<open>\<^verbatim>\<open>s.split(c)\<close> for a single character separator; the empty string gives one
  empty token.\<close>

fun split_on :: "char \<Rightarrow> string \<Rightarrow> string list" where
  "split_on c [] = [[]]"
| "split_on c (x # xs) =
     (if x = c then [] # split_on c xs
      else (case split_on c xs of [] \<Rightarrow> [[x]] | w # ws \<Rightarrow> (x # w) # ws))"

definition startsWith :: "string \<Rightarrow> string \<Rightarrow> bool" where
  "startsWith s p = (take (length p) s = p)"

definition endsWith :: "string \<Rightarrow> string \<Rightarrow> bool" where
  "endsWith s p = (length p \<le> length s \<and> drop (length s - length p) s = p)"

text \<open>\<^verbatim>\<open>s.slice(1, -1)\<close>.\<close>

definition slice_1_m1 :: "string \<Rightarrow> string" where
  "slice_1_m1 s = butlast (tl s)"

text \<open>
  \<^verbatim>\<open>toLowerCase()\<close> on the letters of ASCII. Of the characters outside ASCII only the
  Kelvin sign has a lower case made of ASCII characters alone, the letter \<^verbatim>\<open>k\<close>; the
  script compares the result with three file names without a \<^verbatim>\<open>k\<close>, so what
  lower-casing does to the other characters does not show.
\<close>

definition lower_char :: "char \<Rightarrow> char" where
  "lower_char c = (let n = (of_char c :: nat) in
                    if 65 \<le> n \<and> n \<le> 90 then char_of (n + 32) else c)"

definition toLowerCase :: "string \<Rightarrow> string" where
  "toLowerCase s = map lower_char s"

section \<open>Objects, numbers and JSON text\<close>

definition digit_char :: "nat \<Rightarrow> char" where
  "digit_char d = char_of (48 + d)"

fun nat_to_dec :: "nat \<Rightarrow> string" where
  "nat_to_dec n = (if n < 10 then [digit_char n]
                   else nat_to_dec (n div 10) @ [digit_char (n mod 10)])"

declare nat_to_dec.simps [simp del]

definition is_digit :: "char \<Rightarrow> bool" where
  "is_digit c = (48 \<le> (of_char c :: nat) \<and> (of_char c :: nat) \<le> 57)"

definition dec_val :: "string \<Rightarrow> int" where
  "dec_val s = foldl (\<lambda>a c. a * 10 + ((of_char c :: int) - 48)) 0 s"

text \<open>Property keys that are array indices are enumerated first, in ascending order.\<close>

definition is_array_index :: "string \<Rightarrow> bool" where
  "is_array_index k = (k \<noteq> [] \<and> list_all is_digit k \<and> (k = ''0'' \<or> hd k \<noteq> CHR ''0'')
                        \<and> dec_val k < 4294967295)"

fun insert_index :: "string \<Rightarrow> json \<Rightarrow> (string \<times> json) list \<Rightarrow> (string \<times> json) list" where
  "insert_index k v [] = [(k, v)]"
| "insert_index k v ((k', v') # ms) =
     (if is_array_index k' \<and> dec_val k' < dec_val k then (k', v') # insert_index k v ms
      else (k, v) # (k', v') # ms)"

text \<open>Defining the property \<open>k\<close> of an object: an existing property keeps its place, a
  new array index goes among the indices, any other new key goes last.\<close>

definition obj_put :: "(string \<times> json) list \<Rightarrow> string \<Rightarrow> json \<Rightarrow> (string \<times> json) list" where
  "obj_put ms k v =
     (if k \<in> set (map fst ms) then map (\<lambda>(k', v'). if k' = k then (k', v) else (k', v')) ms
      else if is_array_index k then insert_index k v ms
      else ms @ [(k, v)])"

fun index_from :: "nat \<Rightarrow> 'a list \<Rightarrow> (string \<times> 'a) list" where
  "index_from i [] = []"
| "index_from i (x # xs) = (nat_to_dec i, x) # index_from (Suc i) xs"

text \<open>The UTF-8 bytes of the code point \<open>n\<close>.\<close>

definition utf8_encode :: "nat \<Rightarrow> string" where
  "utf8_encode n =
     (if n < 128 then [char_of n]
      else if n < 2048 then [char_of (192 + n div 64), char_of (128 + n mod 64)]
      else if n < 65536 then
        [char_of (224 + n div 4096), char_of (128 + (n div 64) mod 64), char_of (128 + n mod 64)]
      else [char_of (240 + n div 262144), char_of (128 + (n div 4096) mod 64),
            char_of (128 + (n div 64) mod 64), char_of (128 + n mod 64)])"

text \<open>
  The code units of a string, which are what \<^verbatim>\<open>Object.entries\<close> enumerates of it. A
  character of up to three bytes is one code unit; a character of four bytes is a pair of
  surrogates.
\<close>

definition char_len :: "char \<Rightarrow> nat" where
  "char_len c = (let n = (of_char c :: nat) in
                  if n < 0xC0 then 1 else if n < 0xE0 then 2 else if n < 0xF0 then 3 else 4)"

fun units_of :: "string \<Rightarrow> string list" where
  "units_of [a, b, c, d] =
     (let v = ((of_char a :: nat) mod 8) * 262144 + (of_char b mod 64) * 4096
              + (of_char c mod 64) * 64 + of_char d mod 64 - 65536
      in [utf8_encode (55296 + v div 1024), utf8_encode (56320 + v mod 1024)])"
| "units_of u = [u]"

fun code_units_from :: "nat \<Rightarrow> string \<Rightarrow> string list" where
  "code_units_from k [] = []"
| "code_units_from (Suc k) (c # cs) = code_units_from k cs"
| "code_units_from 0 (c # cs) =
     units_of (take (char_len c) (c # cs)) @ code_units_from (char_len c - 1) cs"

definition code_units :: "string \<Rightarrow> string list" where
  "code_units s = code_units_from 0 s"

text \<open>\<^verbatim>\<open>Object.entries(v)\<close>; it throws on \<^verbatim>\<open>null\<close>.\<close>

fun object_entries :: "json \<Rightarrow> error + (string \<times> json) list" where
  "object_entries JNull = Inl TypeError"
| "object_entries (JBool b) = Inr []"
| "object_entries (JNum s) = Inr []"
| "object_entries (JStr s) = Inr (index_from 0 (map JStr (code_units s)))"
| "object_entries (JArr xs) = Inr (index_from 0 xs)"
| "object_entries (JObj ms) = Inr ms"

text \<open>
  Reading one of the properties \<^verbatim>\<open>description\<close>, \<^verbatim>\<open>arguments\<close>, \<^verbatim>\<open>keywords\<close>,
  \<^verbatim>\<open>homepage\<close>, \<^verbatim>\<open>license\<close>: it throws on \<^verbatim>\<open>null\<close>, and no array, string, number
  or boolean has a property of one of these names.
\<close>

fun prop_of :: "json \<Rightarrow> string \<Rightarrow> json option" where
  "prop_of (JObj ms) k = map_of ms k"
| "prop_of v k = None"

definition get_prop :: "json \<Rightarrow> string \<Rightarrow> error + json option" where
  "get_prop v k = (if v = JNull then Inl TypeError else Inr (prop_of v k))"

subsection \<open>Numbers\<close>

text \<open>
  The layout that \<^verbatim>\<open>Number.prototype.toString\<close> gives the decimal number whose digits
  are \<open>digits\<close>, scaled by \<open>10 ^ e\<close>.
\<close>

definition num_render :: "bool \<Rightarrow> string \<Rightarrow> int \<Rightarrow> string" where
  "num_render neg digits e =
     (let d1 = dropWhile (\<lambda>c. c = CHR ''0'') digits;
          zs = takeWhile (\<lambda>c. c = CHR ''0'') (rev d1);
          ds = rev (dropWhile (\<lambda>c. c = CHR ''0'') (rev d1));
          k = int (length ds);
          n = k + e + int (length zs)
      in if ds = [] then ''0''
         else (if neg then ''-'' else []) @
              (if k \<le> n \<and> n \<le> 21 then ds @ replicate (nat (n - k)) (CHR ''0'')
               else if 0 < n \<and> n \<le> 21 then take (nat n) ds @ ''.'' @ drop (nat n) ds
               else if - 6 < n \<and> n \<le> 0 then ''0.'' @ replicate (nat (- n)) (CHR ''0'') @ ds
               else (if k = 1 then ds else hd ds # ''.'' @ tl ds) @ ''e''
                    @ (if n - 1 < 0 then ''-'' else ''+'') @ nat_to_dec (nat \<bar>n - 1\<bar>)))"

text \<open>
  A number is a double: \<open>m * 2 ^ q\<close> with \<open>m < 2 ^ 53\<close> and \<open>- 1074 \<le> q \<le> 971\<close>, where
  \<open>2 ^ 52 \<le> m\<close> unless \<open>q = - 1074\<close>. \<open>to_double N D\<close> is the double nearest to the
  fraction \<open>N / D\<close> of two positive integers, the even one of two that are equally near,
  and \<open>None\<close> where that is infinity.
\<close>

function bit_length :: "int \<Rightarrow> nat" where
  "bit_length n = (if n \<le> 0 then 0 else Suc (bit_length (n div 2)))"
  by pat_completeness auto
termination by (relation "measure nat") auto

definition to_double :: "int \<Rightarrow> int \<Rightarrow> (int \<times> int) option" where
  "to_double N D =
     (let b = int (bit_length N) - int (bit_length D);
          fl = (if (if 0 \<le> b then D * 2 ^ nat b \<le> N else D \<le> N * 2 ^ nat (- b)) then b else b - 1);
          q = max (fl - 52) (- 1074);
          num = (if q < 0 then N * 2 ^ nat (- q) else N);
          den = (if q < 0 then D else D * 2 ^ nat q);
          m0 = num div den;
          r = num mod den;
          m1 = (if den < 2 * r \<or> (2 * r = den \<and> odd m0) then m0 + 1 else m0);
          m = (if m1 = 2 ^ 53 then 2 ^ 52 else m1);
          q1 = (if m1 = 2 ^ 53 then q + 1 else q)
      in if 971 < q1 then None else Some (m, q1))"

text \<open>The double nearest to \<open>s * 10 ^ e\<close>, and the integer \<open>S\<close> and the exponent \<open>t\<close>
  with \<open>m * 2 ^ q = S * 10 ^ t\<close>.\<close>

definition of_decimal :: "int \<Rightarrow> int \<Rightarrow> (int \<times> int) option" where
  "of_decimal s e = (if 0 \<le> e then to_double (s * 10 ^ nat e) 1 else to_double s (10 ^ nat (- e)))"

definition decimal_of :: "int \<Rightarrow> int \<Rightarrow> int \<times> int" where
  "decimal_of m q = (if 0 \<le> q then (m * 2 ^ nat q, 0) else (m * 5 ^ nat (- q), q))"

text \<open>
  The digits of \<^verbatim>\<open>Number.prototype.toString\<close>: as few as give back the same double, and
  of the numbers of that many digits the one nearest to it. \<open>S\<close> has \<open>nd\<close> digits; the
  candidates of \<open>k\<close> digits are \<open>S\<close> cut to \<open>k\<close> digits and the next number.
\<close>

fun shortest :: "nat \<Rightarrow> nat \<Rightarrow> int \<times> int \<Rightarrow> int \<Rightarrow> int \<Rightarrow> nat \<Rightarrow> int \<times> int" where
  "shortest 0 k d S t nd = (S, t)"
| "shortest (Suc fuel) k d S t nd =
     (if nd \<le> k then (S, t)
      else let g = nd - k;
               lo = S div 10 ^ g;
               hi = lo + 1;
               lo_ok = (of_decimal lo (t + int g) = Some d);
               hi_ok = (of_decimal hi (t + int g) = Some d);
               lo_err = S - lo * 10 ^ g;
               hi_err = hi * 10 ^ g - S
           in if lo_ok \<and> (\<not> hi_ok \<or> lo_err < hi_err \<or> (lo_err = hi_err \<and> even lo))
              then (lo, t + int g)
              else if hi_ok then (hi, t + int g)
              else shortest fuel (Suc k) d S t nd)"

text \<open>The text of the number that a literal with the digits \<open>digits\<close> and the exponent
  \<open>e\<close> denotes. A literal beyond the two bounds is infinity or zero whatever its digits.\<close>

definition number_text :: "bool \<Rightarrow> string \<Rightarrow> int \<Rightarrow> string" where
  "number_text neg digits e =
     (let ds = dropWhile (\<lambda>c. c = CHR ''0'') digits;
          magnitude = int (length ds) + e;
          infinity = (if neg then ''-Infinity'' else ''Infinity'')
      in if ds = [] \<or> magnitude < - 330 then ''0''
         else if 310 < magnitude then infinity
         else (case of_decimal (dec_val ds) e of
                 None \<Rightarrow> infinity
               | Some (m, q) \<Rightarrow>
                   if m = 0 then ''0''
                   else (case decimal_of m q of
                           (S, t) \<Rightarrow>
                             (case shortest 17 1 (m, q) S t (length (nat_to_dec (nat S))) of
                                (s, e1) \<Rightarrow> num_render neg (nat_to_dec (nat s)) e1))))"

subsection \<open>\<^verbatim>\<open>JSON.stringify\<close> of a list of strings\<close>

definition hex_digit :: "nat \<Rightarrow> char" where
  "hex_digit d = (if d < 10 then char_of (48 + d) else char_of (87 + d))"

definition quote_char :: "char \<Rightarrow> string" where
  "quote_char c =
     (let n = (of_char c :: nat) in
      if c = CHR 0x22 then [CHR 0x5C, CHR 0x22]
      else if c = CHR 0x5C then [CHR 0x5C, CHR 0x5C]
      else if n = 8 then [CHR 0x5C, CHR ''b'']
      else if n = 12 then [CHR 0x5C, CHR ''f'']
      else if n = 10 then [CHR 0x5C, CHR ''n'']
      else if n = 13 then [CHR 0x5C, CHR ''r'']
      else if n = 9 then [CHR 0x5C, CHR ''t'']
      else if n < 32 then [CHR 0x5C, CHR ''u'', CHR ''0'', CHR ''0'',
                           hex_digit (n div 16), hex_digit (n mod 16)]
      else [c])"

text \<open>A surrogate without its partner is written as an escape.\<close>

fun quote_from :: "string \<Rightarrow> string" where
  "quote_from (a # b # c # cs) =
     (if a = CHR 0xED \<and> 0xA0 \<le> (of_char b :: nat) \<and> (of_char b :: nat) \<le> 0xBF then
        [CHR 0x5C, CHR ''u'', CHR ''d'', hex_digit ((of_char b mod 64) div 4),
         hex_digit (((of_char b mod 4) * 64 + of_char c mod 64) div 16),
         hex_digit (of_char c mod 16)] @ quote_from cs
      else quote_char a @ quote_from (b # c # cs))"
| "quote_from [a, b] = quote_char a @ quote_char b"
| "quote_from [a] = quote_char a"
| "quote_from [] = []"

definition json_quote :: "string \<Rightarrow> string" where
  "json_quote s = [CHR 0x22] @ quote_from s @ [CHR 0x22]"

definition stringify_strings :: "string list \<Rightarrow> string" where
  "stringify_strings xs = ''['' @ join_strings '','' (map json_quote xs) @ '']''"

subsection \<open>\<^verbatim>\<open>path.join\<close> (POSIX)\<close>

fun normalize_segments :: "bool \<Rightarrow> string list \<Rightarrow> string list \<Rightarrow> string list" where
  "normalize_segments allow_up acc [] = rev acc"
| "normalize_segments allow_up acc (seg # segs) =
     (if seg = [] \<or> seg = ''.'' then normalize_segments allow_up acc segs
      else if seg = ''..'' then
        (case acc of
           [] \<Rightarrow> normalize_segments allow_up (if allow_up then [''..''] else []) segs
         | a # acc' \<Rightarrow> if a = ''..'' then normalize_segments allow_up (''..'' # acc) segs
                       else normalize_segments allow_up acc' segs)
      else normalize_segments allow_up (seg # acc) segs)"

definition path_normalize :: "string \<Rightarrow> string" where
  "path_normalize p =
     (if p = [] then ''.''
      else let absolute = (hd p = CHR ''/'');
               trailing = (last p = CHR ''/'');
               q = join_strings ''/'' (normalize_segments (\<not> absolute) [] (split_on (CHR ''/'') p))
           in if q = [] then (if absolute then ''/'' else if trailing then ''./'' else ''.'')
              else (if absolute then ''/'' else []) @ q @ (if trailing then ''/'' else []))"

definition path_join :: "string list \<Rightarrow> string" where
  "path_join parts =
     (let ps = filter (\<lambda>p. p \<noteq> []) parts in
      if ps = [] then ''.'' else path_normalize (join_strings ''/'' ps))"

text \<open>\<^verbatim>\<open>path.dirname\<close>: trailing separators and the last segment are dropped.\<close>

definition path_dirname :: "string \<Rightarrow> string" where
  "path_dirname p =
     (if p = [] then ''.''
      else let root = (hd p = CHR ''/'');
               r1 = dropWhile (\<lambda>c. c = CHR ''/'') (rev (tl p));
               r2 = dropWhile (\<lambda>c. c \<noteq> CHR ''/'') r1
           in if r2 = [] then (if root then ''/'' else ''.'')
              else if root \<and> tl r2 = [] then ''//''
              else hd p # rev (tl r2))"

subsection \<open>\<^verbatim>\<open>Buffer.prototype.toString('utf8')\<close>\<close>

text \<open>
  Decoding reads one character at a time. \<open>well_formed_tail\<close> reads the bytes that must
  follow the first one: \<open>k\<close> are still needed, \<open>seen\<close> have been read, and the next one
  must lie between \<open>lo\<close> and \<open>hi\<close>. The result is the number of bytes read and whether
  they are a character.
\<close>

fun well_formed_tail :: "nat \<Rightarrow> nat \<Rightarrow> nat \<Rightarrow> nat \<Rightarrow> string \<Rightarrow> nat \<times> bool" where
  "well_formed_tail 0 seen lo hi cs = (seen, True)"
| "well_formed_tail (Suc k) seen lo hi [] = (seen, False)"
| "well_formed_tail (Suc k) seen lo hi (c # cs) =
     (if lo \<le> (of_char c :: nat) \<and> (of_char c :: nat) \<le> hi
      then well_formed_tail k (Suc seen) 0x80 0xBF cs
      else (seen, False))"

definition utf8_head :: "char \<Rightarrow> string \<Rightarrow> nat \<times> bool" where
  "utf8_head c cs =
     (let n = (of_char c :: nat) in
      if n < 0x80 then (1, True)
      else if 0xC2 \<le> n \<and> n \<le> 0xDF then well_formed_tail 1 1 0x80 0xBF cs
      else if 0xE0 \<le> n \<and> n \<le> 0xEF then
        well_formed_tail 2 1 (if n = 0xE0 then 0xA0 else 0x80) (if n = 0xED then 0x9F else 0xBF) cs
      else if 0xF0 \<le> n \<and> n \<le> 0xF4 then
        well_formed_tail 3 1 (if n = 0xF0 then 0x90 else 0x80) (if n = 0xF4 then 0x8F else 0xBF) cs
      else (1, False))"

text \<open>U+FFFD, which stands for every sequence of bytes that is not a character.\<close>

definition replacement :: string where
  "replacement = [CHR 0xEF, CHR 0xBF, CHR 0xBD]"

fun decode_from :: "nat \<Rightarrow> string \<Rightarrow> string" where
  "decode_from k [] = []"
| "decode_from (Suc k) (c # cs) = decode_from k cs"
| "decode_from 0 (c # cs) =
     (case utf8_head c cs of
        (n, ok) \<Rightarrow> (if ok then take n (c # cs) else replacement) @ decode_from (n - 1) cs)"

definition toString_utf8 :: "string \<Rightarrow> string" where
  "toString_utf8 s = decode_from 0 s"

subsection \<open>A parser for JSON text\<close>

datatype token = TLBracket | TRBracket | TLBrace | TRBrace | TComma | TColon | TAtom json

definition hex_val :: "char \<Rightarrow> nat option" where
  "hex_val c =
     (let n = (of_char c :: nat) in
      if 48 \<le> n \<and> n \<le> 57 then Some (n - 48)
      else if 97 \<le> n \<and> n \<le> 102 then Some (n - 87)
      else if 65 \<le> n \<and> n \<le> 70 then Some (n - 55)
      else None)"

text \<open>
  An escape \<^verbatim>\<open>\u\<close> names one code unit. Where a high surrogate comes to stand before a
  low one, the two are one character of four bytes.
\<close>

fun merge_surrogates :: "string \<Rightarrow> string" where
  "merge_surrogates (a # b # c # d # e # f # cs) =
     (if a = CHR 0xED \<and> 0xA0 \<le> (of_char b :: nat) \<and> (of_char b :: nat) \<le> 0xAF
         \<and> d = CHR 0xED \<and> 0xB0 \<le> (of_char e :: nat) \<and> (of_char e :: nat) \<le> 0xBF then
        utf8_encode (65536 + ((of_char b mod 16) * 64 + of_char c mod 64) * 1024
                     + (of_char e mod 16) * 64 + of_char f mod 64)
        @ merge_surrogates cs
      else a # merge_surrogates (b # c # d # e # f # cs))"
| "merge_surrogates s = s"

definition unescape :: "char \<Rightarrow> char option" where
  "unescape e =
     (if e = CHR 0x22 \<or> e = CHR 0x5C \<or> e = CHR ''/'' then Some e
      else if e = CHR ''b'' then Some (CHR 0x08)
      else if e = CHR ''f'' then Some (CHR 0x0C)
      else if e = CHR ''n'' then Some (CHR 0x0A)
      else if e = CHR ''r'' then Some (CHR 0x0D)
      else if e = CHR ''t'' then Some (CHR 0x09)
      else None)"

definition lex_number :: "string \<Rightarrow> (json \<times> string) option" where
  "lex_number s =
     (let neg = (s \<noteq> [] \<and> hd s = CHR ''-'');
          s1 = (if neg then tl s else s);
          ds = takeWhile is_digit s1;
          r1 = dropWhile is_digit s1
      in if ds = [] \<or> (1 < length ds \<and> hd ds = CHR ''0'') then None
         else
           let has_frac = (r1 \<noteq> [] \<and> hd r1 = CHR ''.'');
               fs = (if has_frac then takeWhile is_digit (tl r1) else []);
               r2 = (if has_frac then dropWhile is_digit (tl r1) else r1)
           in if has_frac \<and> fs = [] then None
              else
                let has_exp = (r2 \<noteq> [] \<and> (hd r2 = CHR ''e'' \<or> hd r2 = CHR ''E''));
                    r3 = (if has_exp then tl r2 else r2);
                    eneg = (has_exp \<and> r3 \<noteq> [] \<and> hd r3 = CHR ''-'');
                    r4 = (if has_exp \<and> r3 \<noteq> [] \<and> (hd r3 = CHR ''-'' \<or> hd r3 = CHR ''+'')
                          then tl r3 else r3);
                    es = (if has_exp then takeWhile is_digit r4 else []);
                    r5 = (if has_exp then dropWhile is_digit r4 else r2)
                in if has_exp \<and> es = [] then None
                   else Some (JNum (number_text neg (ds @ fs)
                                      ((if eneg then - dec_val es else dec_val es)
                                       - int (length fs))), r5))"

definition json_space :: "char \<Rightarrow> bool" where
  "json_space c = (c = CHR '' '' \<or> c = CHR 0x09 \<or> c = CHR 0x0A \<or> c = CHR 0x0D)"

definition is_num_char :: "char \<Rightarrow> bool" where
  "is_num_char c = (is_digit c \<or> c = CHR ''-'' \<or> c = CHR ''+'' \<or> c = CHR ''.''
                    \<or> c = CHR ''e'' \<or> c = CHR ''E'')"

definition is_lower_letter :: "char \<Rightarrow> bool" where
  "is_lower_letter c = (97 \<le> (of_char c :: nat) \<and> (of_char c :: nat) \<le> 122)"

text \<open>The lexer reads one character at a time. A run of number characters must be one
  number as a whole and a run of letters one of the three literals: two values that touch
  are a syntax error in any case.\<close>

datatype lstate =
    LNormal
  | LStr string
  | LEsc string
  | LUni string "nat list"
  | LNum string
  | LWord string

definition normal_step :: "char \<Rightarrow> (token list \<times> lstate) option" where
  "normal_step c =
     (if json_space c then Some ([], LNormal)
      else if c = CHR ''['' then Some ([TLBracket], LNormal)
      else if c = CHR '']'' then Some ([TRBracket], LNormal)
      else if c = CHR ''{'' then Some ([TLBrace], LNormal)
      else if c = CHR ''}'' then Some ([TRBrace], LNormal)
      else if c = CHR '','' then Some ([TComma], LNormal)
      else if c = CHR '':'' then Some ([TColon], LNormal)
      else if c = CHR 0x22 then Some ([], LStr [])
      else if c = CHR ''-'' \<or> is_digit c then Some ([], LNum [c])
      else if is_lower_letter c then Some ([], LWord [c])
      else None)"

definition finish_num :: "string \<Rightarrow> token option" where
  "finish_num acc = (case lex_number (rev acc) of
                       Some (v, rest) \<Rightarrow> if rest = [] then Some (TAtom v) else None
                     | None \<Rightarrow> None)"

definition finish_word :: "string \<Rightarrow> token option" where
  "finish_word acc =
     (let w = rev acc in
      if w = ''true'' then Some (TAtom (JBool True))
      else if w = ''false'' then Some (TAtom (JBool False))
      else if w = ''null'' then Some (TAtom JNull)
      else None)"

definition hex_value :: "nat list \<Rightarrow> nat" where
  "hex_value hs = foldl (\<lambda>a h. a * 16 + h) 0 hs"

fun lex_from :: "lstate \<Rightarrow> string \<Rightarrow> token list option" where
  "lex_from st [] =
     (case st of
        LNormal \<Rightarrow> Some []
      | LNum acc \<Rightarrow> map_option (\<lambda>t. [t]) (finish_num acc)
      | LWord acc \<Rightarrow> map_option (\<lambda>t. [t]) (finish_word acc)
      | _ \<Rightarrow> None)"
| "lex_from LNormal (c # cs) =
     (case normal_step c of
        None \<Rightarrow> None
      | Some (ts, st') \<Rightarrow> map_option ((@) ts) (lex_from st' cs))"
| "lex_from (LStr acc) (c # cs) =
     (if c = CHR 0x22 then
        map_option (Cons (TAtom (JStr (merge_surrogates (rev acc))))) (lex_from LNormal cs)
      else if c = CHR 0x5C then lex_from (LEsc acc) cs
      else if (of_char c :: nat) < 32 then None
      else lex_from (LStr (c # acc)) cs)"
| "lex_from (LEsc acc) (c # cs) =
     (if c = CHR ''u'' then lex_from (LUni acc []) cs
      else (case unescape c of
              None \<Rightarrow> None
            | Some x \<Rightarrow> lex_from (LStr (x # acc)) cs))"
| "lex_from (LUni acc hs) (c # cs) =
     (case hex_val c of
        None \<Rightarrow> None
      | Some h \<Rightarrow>
          if length hs = 3 then lex_from (LStr (rev (utf8_encode (hex_value (hs @ [h]))) @ acc)) cs
          else lex_from (LUni acc (hs @ [h])) cs)"
| "lex_from (LNum acc) (c # cs) =
     (if is_num_char c then lex_from (LNum (c # acc)) cs
      else (case (finish_num acc, normal_step c) of
              (Some t, Some (ts, st')) \<Rightarrow> map_option ((@) (t # ts)) (lex_from st' cs)
            | _ \<Rightarrow> None))"
| "lex_from (LWord acc) (c # cs) =
     (if is_lower_letter c then lex_from (LWord (c # acc)) cs
      else (case (finish_word acc, normal_step c) of
              (Some t, Some (ts, st')) \<Rightarrow> map_option ((@) (t # ts)) (lex_from st' cs)
            | _ \<Rightarrow> None))"

text \<open>The parser is a pushdown automaton over the tokens: a frame is an array or an object
  under construction.\<close>

datatype frame =
    FArr "json list"
  | FObj "(string \<times> json) list"
  | FKey "(string \<times> json) list" string

datatype pstate = SValue | SArrFirst | SObjFirst | SObjKey | SColon | SNext | SDone json

fun complete :: "json \<Rightarrow> frame list \<Rightarrow> (pstate \<times> frame list) option" where
  "complete v [] = Some (SDone v, [])"
| "complete v (FArr acc # st) = Some (SNext, FArr (v # acc) # st)"
| "complete v (FKey ms k # st) = Some (SNext, FObj (obj_put ms k v) # st)"
| "complete v (FObj ms # st) = None"

fun expect_value :: "bool \<Rightarrow> frame list \<Rightarrow> token \<Rightarrow> (pstate \<times> frame list) option" where
  "expect_value first st (TAtom v) = complete v st"
| "expect_value first st TLBracket = Some (SArrFirst, FArr [] # st)"
| "expect_value first st TLBrace = Some (SObjFirst, FObj [] # st)"
| "expect_value first (FArr acc # st) TRBracket =
     (if first then complete (JArr (rev acc)) st else None)"
| "expect_value first st t = None"

fun expect_key :: "bool \<Rightarrow> frame list \<Rightarrow> token \<Rightarrow> (pstate \<times> frame list) option" where
  "expect_key first (FObj ms # st) (TAtom (JStr k)) = Some (SColon, FKey ms k # st)"
| "expect_key first (FObj ms # st) TRBrace =
     (if first then complete (JObj ms) st else None)"
| "expect_key first st t = None"

fun expect_next :: "frame list \<Rightarrow> token \<Rightarrow> (pstate \<times> frame list) option" where
  "expect_next (FArr acc # st) TComma = Some (SValue, FArr acc # st)"
| "expect_next (FArr acc # st) TRBracket = complete (JArr (rev acc)) st"
| "expect_next (FObj ms # st) TComma = Some (SObjKey, FObj ms # st)"
| "expect_next (FObj ms # st) TRBrace = complete (JObj ms) st"
| "expect_next st t = None"

fun parse_step :: "pstate \<Rightarrow> frame list \<Rightarrow> token \<Rightarrow> (pstate \<times> frame list) option" where
  "parse_step SValue st t = expect_value False st t"
| "parse_step SArrFirst st t = expect_value True st t"
| "parse_step SObjFirst st t = expect_key True st t"
| "parse_step SObjKey st t = expect_key False st t"
| "parse_step SColon st t = (if t = TColon then Some (SValue, st) else None)"
| "parse_step SNext st t = expect_next st t"
| "parse_step (SDone v) st t = None"

fun parse_tokens :: "pstate \<Rightarrow> frame list \<Rightarrow> token list \<Rightarrow> json option" where
  "parse_tokens s st [] = (case s of SDone v \<Rightarrow> Some v | _ \<Rightarrow> None)"
| "parse_tokens s st (t # ts) =
     (case parse_step s st t of
        None \<Rightarrow> None
      | Some (s', st') \<Rightarrow> parse_tokens s' st' ts)"

text \<open>\<^verbatim>\<open>JSON.parse(text)\<close>; a syntax error is \<open>None\<close>.\<close>

definition JSON_parse :: "string \<Rightarrow> json option" where
  "JSON_parse text = (case lex_from LNormal text of
                        None \<Rightarrow> None
                      | Some ts \<Rightarrow> parse_tokens SValue [] ts)"

section \<open>The extraction script\<close>

text \<open>
  The registry index, as \<^verbatim>\<open>README.md\<close> documents it. \<^verbatim>\<open>description\<close>, \<^verbatim>\<open>owners\<close> and
  \<^verbatim>\<open>latest\<close> are only converted to text, compared or copied by the script, so they stay
  untyped; \<^verbatim>\<open>path\<close> and \<^verbatim>\<open>dependencies\<close> are the string and the list of strings of that
  format. The two objects are lists in the order of \<^verbatim>\<open>Object.entries\<close>.
\<close>

record version_data =
  path :: string
  dependencies :: "string list"

record pkg_data =
  description :: "json option"
  owners :: "json option"
  versions :: "(string \<times> version_data) list"
  latest :: "json option"

text \<open>An entry of an archive as \<^verbatim>\<open>adm-zip\<close> presents it; \<open>entry_data\<close> is the result of
  \<^verbatim>\<open>getData()\<close>.\<close>

record zip_entry =
  entryName :: string
  isDirectory :: bool
  entry_data :: string

datatype archive_file = NotZip | Zip "zip_entry list"

text \<open>What the script reads of \<^verbatim>\<open>projectConfig\<close> after line 106, where \<^verbatim>\<open>keywords\<close> has
  been overwritten by its normal form.\<close>

record project_config =
  cfg_keywords :: json
  cfg_homepage :: "json option"
  cfg_license :: "json option"

record metadata =
  m_name :: string
  m_version :: string
  m_description :: "json option"
  m_owners :: "json option"
  m_dependencies :: "string list"
  m_latest :: bool
  m_hasDocs :: bool
  m_keywords :: json
  m_homepage :: "json option"
  m_license :: "json option"
  m_searchIndex :: string
  m_functions :: json

text \<open>The effects of a run, in the order they happen.\<close>

datatype event =
    EnsureDir string
  | EmptyDir string
  | WriteFile string string
  | WriteJson string metadata
  | Warn string
  | LogError error

text \<open>
  What a run depends on: the two directories, the content of \<^verbatim>\<open>index.json\<close> (\<open>None\<close>
  when it cannot be read), the files at the archive paths (\<open>None\<close> when there is none) and
  \<^verbatim>\<open>JSON.parse\<close>. The file system is taken to accept every write.
\<close>

record env =
  registry_root :: string
  content_dir :: string
  index_json :: "(string \<times> pkg_data) list option"
  files :: "string \<Rightarrow> archive_file option"
  json_parse :: "string \<Rightarrow> json option"

definition newline :: string where
  "newline = [CHR 0x0A]"

subsection \<open>Lines 38 to 62: the three named entries\<close>

definition find_entry :: "string \<Rightarrow> zip_entry list \<Rightarrow> zip_entry option" where
  "find_entry fname zipEntries = find (\<lambda>e. toLowerCase (entryName e) = fname) zipEntries"

definition read_readme :: "zip_entry list \<Rightarrow> string" where
  "read_readme zipEntries =
     (case find_entry ''readme.md'' zipEntries of
        None \<Rightarrow> []
      | Some e \<Rightarrow> toString_utf8 (entry_data e))"

definition read_project ::
  "(string \<Rightarrow> json option) \<Rightarrow> string \<Rightarrow> string \<Rightarrow> zip_entry list \<Rightarrow> json \<times> event list" where
  "read_project parse pkgName version zipEntries =
     (case find_entry ''__gsproject__.json'' zipEntries of
        None \<Rightarrow> (JObj [], [])
      | Some e \<Rightarrow>
          (case parse (toString_utf8 (entry_data e)) of
             Some v \<Rightarrow> (v, [])
           | None \<Rightarrow> (JObj [], [Warn (''failed to parse __GSPROJECT__.json for ''
                                      @ pkgName @ ''@'' @ version)])))"

definition read_functions ::
  "(string \<Rightarrow> json option) \<Rightarrow> string \<Rightarrow> string \<Rightarrow> zip_entry list \<Rightarrow> json \<times> event list" where
  "read_functions parse pkgName version zipEntries =
     (case find_entry ''functions.json'' zipEntries of
        None \<Rightarrow> (JNull, [])
      | Some e \<Rightarrow>
          (case parse (toString_utf8 (entry_data e)) of
             Some v \<Rightarrow> (v, [])
           | None \<Rightarrow> (JNull, [Warn (''failed to parse functions.json for ''
                                    @ pkgName @ ''@'' @ version)])))"

subsection \<open>Lines 64 to 73: the docs folder\<close>

definition is_docs_file :: "zip_entry \<Rightarrow> bool" where
  "is_docs_file entry = (startsWith (entryName entry) ''docs/'' \<and> \<not> isDirectory entry)"

definition docs_target :: "string \<Rightarrow> zip_entry \<Rightarrow> string" where
  "docs_target outputDir entry = path_join [outputDir, ''docs'', drop 5 (entryName entry)]"

definition docs_step :: "string \<Rightarrow> event list \<times> bool \<Rightarrow> zip_entry \<Rightarrow> event list \<times> bool" where
  "docs_step outputDir st entry =
     (if is_docs_file entry then
        (fst st @ [EnsureDir (path_dirname (docs_target outputDir entry)),
                   WriteFile (docs_target outputDir entry) (entry_data entry)], True)
      else st)"

definition extract_docs_folder :: "string \<Rightarrow> zip_entry list \<Rightarrow> event list \<times> bool" where
  "extract_docs_folder outputDir zipEntries = foldl (docs_step outputDir) ([], False) zipEntries"

subsection \<open>Lines 77 to 86: the search index\<close>

fun push_functions :: "(string \<times> json) list \<Rightarrow> json option list \<Rightarrow> error + json option list" where
  "push_functions [] parts = Inr parts"
| "push_functions ((funcName, funcDef) # rest) parts =
     (case get_prop funcDef ''description'' of
        Inl e \<Rightarrow> Inl e
      | Inr d \<Rightarrow> push_functions rest
                  (parts @ [Some (JStr funcName)] @ (if truthy_opt d then [d] else [])))"

definition search_index_parts ::
  "string \<Rightarrow> json option \<Rightarrow> json option \<Rightarrow> json \<Rightarrow> error + json option list" where
  "search_index_parts pkgName descr kw functionsData =
     (let parts = [Some (JStr pkgName), descr] @ (if truthy_opt kw then [kw] else [])
      in if truthy functionsData then
           (case object_entries functionsData of
              Inl e \<Rightarrow> Inl e
            | Inr es \<Rightarrow> push_functions es parts)
         else Inr parts)"

definition build_search_index ::
  "string \<Rightarrow> json option \<Rightarrow> json option \<Rightarrow> json \<Rightarrow> error + string" where
  "build_search_index pkgName descr kw functionsData =
     (case search_index_parts pkgName descr kw functionsData of
        Inl e \<Rightarrow> Inl e
      | Inr parts \<Rightarrow>
          (case js_join '' '' parts of
             Inl e \<Rightarrow> Inl e
           | Inr joined \<Rightarrow> Inr (trim (collapse_ws joined))))"

subsection \<open>Lines 88 to 106: the keywords\<close>

definition is_quote :: "char \<Rightarrow> bool" where
  "is_quote c = (c = CHR 0x27 \<or> c = CHR 0x22)"

text \<open>\<^verbatim>\<open>k.replace(/^['"]|['"]$/g, '')\<close>.\<close>

definition strip_quotes :: "string \<Rightarrow> string" where
  "strip_quotes k =
     (let a = (if k \<noteq> [] \<and> is_quote (hd k) then tl k else k)
      in if a \<noteq> [] \<and> is_quote (last a) then butlast a else a)"

definition array_join :: "string \<Rightarrow> json list \<Rightarrow> error + string" where
  "array_join sep xs =
     (if list_all stringable xs then Inr (join_strings sep (map js_join_elem xs))
      else Inl TypeError)"

definition strip_brackets :: "string \<Rightarrow> string" where
  "strip_brackets s =
     join_strings '', '' (map (\<lambda>k. strip_quotes (trim k)) (split_on (CHR '','') (slice_1_m1 s)))"

text \<open>The \<^verbatim>\<open>join\<close> of line 91 throws where an element does not convert; the one of
  line 99 stands inside the \<^verbatim>\<open>try\<close>, so there the handler of line 103 takes over.\<close>

definition normalize_keywords ::
  "(string \<Rightarrow> json option) \<Rightarrow> json option \<Rightarrow> error + json" where
  "normalize_keywords parse raw =
     (case (if truthy_opt raw then raw else Some (JStr [])) of
        None \<Rightarrow> Inr (JStr [])
      | Some (JArr xs) \<Rightarrow>
          (case array_join '', '' xs of Inl e \<Rightarrow> Inl e | Inr joined \<Rightarrow> Inr (JStr joined))
      | Some (JStr s) \<Rightarrow>
          if startsWith s ''['' \<and> endsWith s '']'' then
            (case parse (replace_char (CHR 0x27) [CHR 0x22] s) of
               Some (JArr ys) \<Rightarrow>
                 (case array_join '', '' ys of
                    Inl e \<Rightarrow> Inr (JStr (strip_brackets s))
                  | Inr joined \<Rightarrow> Inr (JStr joined))
             | Some other \<Rightarrow> Inr (JStr s)
             | None \<Rightarrow> Inr (JStr (strip_brackets s)))
          else Inr (JStr s)
      | Some other \<Rightarrow> Inr other)"

text \<open>Line 106 assigns a property; the module is strict code, so this throws on a
  descriptor that is a string, a number or a boolean.\<close>

fun assignable :: "json \<Rightarrow> bool" where
  "assignable (JObj ms) = True"
| "assignable (JArr xs) = True"
| "assignable v = False"

subsection \<open>Lines 178 to 195: \<^verbatim>\<open>generateApiDocs\<close>\<close>

text \<open>\<^verbatim>\<open>${def.description || fallback}\<close>; reading the property throws on \<^verbatim>\<open>null\<close>.\<close>

definition description_text :: "json \<Rightarrow> string \<Rightarrow> error + string" where
  "description_text def fallback =
     (case get_prop def ''description'' of
        Inl e \<Rightarrow> Inl e
      | Inr d \<Rightarrow> if truthy_opt d then to_string_opt d else Inr fallback)"

fun render_arguments :: "(string \<times> json) list \<Rightarrow> string \<Rightarrow> error + string" where
  "render_arguments [] docs = Inr docs"
| "render_arguments ((argName, argDef) # rest) docs =
     (case description_text argDef [] of
        Inl e \<Rightarrow> Inl e
      | Inr d \<Rightarrow> render_arguments rest (docs @ ''- `'' @ argName @ ''`: '' @ d @ newline))"

definition render_function :: "string \<Rightarrow> json \<Rightarrow> string \<Rightarrow> error + string" where
  "render_function funcName funcDef docs =
     (case description_text funcDef ''No description provided.'' of
        Inl e \<Rightarrow> Inl e
      | Inr d \<Rightarrow>
          let docs1 = docs @ ''### `'' @ funcName @ ''`'' @ newline @ newline
                      @ d @ newline @ newline;
              args = prop_of funcDef ''arguments''
          in if truthy_opt args then
               (case object_entries (case args of Some a \<Rightarrow> a | None \<Rightarrow> JNull) of
                  Inl e \<Rightarrow> Inl e
                | Inr es \<Rightarrow>
                    if 0 < length es then
                      (case render_arguments es (docs1 @ ''**Arguments**:'' @ newline) of
                         Inl e \<Rightarrow> Inl e
                       | Inr docs2 \<Rightarrow> Inr (docs2 @ newline))
                    else Inr docs1)
             else Inr docs1)"

fun render_functions :: "(string \<times> json) list \<Rightarrow> string \<Rightarrow> error + string" where
  "render_functions [] docs = Inr docs"
| "render_functions ((funcName, funcDef) # rest) docs =
     (case render_function funcName funcDef docs of
        Inl e \<Rightarrow> Inl e
      | Inr docs' \<Rightarrow> render_functions rest docs')"

definition generateApiDocs :: "json \<Rightarrow> error + string" where
  "generateApiDocs functionsData =
     (if \<not> truthy functionsData then Inr []
      else (case object_entries functionsData of
              Inl e \<Rightarrow> Inl e
            | Inr es \<Rightarrow> render_functions es (''## API Reference'' @ newline @ newline)))"

subsection \<open>Lines 152 to 176: \<^verbatim>\<open>synthesizeReadme\<close>\<close>

definition is_name_char :: "char \<Rightarrow> bool" where
  "is_name_char c =
     (let n = (of_char c :: nat)
      in (97 \<le> n \<and> n \<le> 122) \<or> (65 \<le> n \<and> n \<le> 90) \<or> (48 \<le> n \<and> n \<le> 57) \<or> c = CHR ''-'')"

text \<open>Whether a string has a line terminator: line feed, carriage return, U+2028 or
  U+2029.\<close>

fun has_line_terminator :: "string \<Rightarrow> bool" where
  "has_line_terminator [] = False"
| "has_line_terminator (c # cs) =
     (c = CHR 0x0A \<or> c = CHR 0x0D
      \<or> (c = CHR 0xE2 \<and> (take 2 cs = [CHR 0x80, CHR 0xA8] \<or> take 2 cs = [CHR 0x80, CHR 0xA9]))
      \<or> has_line_terminator cs)"

text \<open>
  \<^verbatim>\<open>d.match(/^([a-z0-9-]+)(?:>=|@)?(.*)$/i)\<close> and the choice of \<^verbatim>\<open>depName\<close>: the first
  group takes the longest run of name characters, and the match fails when that run is
  empty or when a line terminator follows, which \<^verbatim>\<open>.\<close> does not match.
\<close>

definition dep_name :: "string \<Rightarrow> string" where
  "dep_name d =
     (let m1 = takeWhile is_name_char d;
          rest = dropWhile is_name_char d
      in if m1 \<noteq> [] \<and> \<not> has_line_terminator rest then m1 else d)"

definition dep_link :: "string \<Rightarrow> string" where
  "dep_link d = ''- ['' @ d @ ''](/packages/'' @ dep_name d @ '')''"

text \<open>The value of the local variable \<^verbatim>\<open>deps\<close> (lines 153 to 159).\<close>

definition deps_text :: "version_data \<Rightarrow> string" where
  "deps_text versionData =
     (if 0 < length (dependencies versionData)
      then join_strings newline (map dep_link (dependencies versionData))
      else ''_No dependencies_'')"

text \<open>One of the optional lines of the front matter: \<^verbatim>\<open>${v ? `\nlabel: ${v}` : ''}\<close>.\<close>

definition optional_line :: "string \<Rightarrow> json option \<Rightarrow> error + string" where
  "optional_line label v =
     (if truthy_opt v then
        (case to_string_opt v of Inl e \<Rightarrow> Inl e | Inr t \<Rightarrow> Inr (newline @ label @ t))
      else Inr [])"

text \<open>The front matter; the template of lines 161 to 168 is, character by character, the
  one of lines 113 to 122. It throws where one of its values does not convert.\<close>

definition frontmatter ::
  "string \<Rightarrow> string \<Rightarrow> pkg_data \<Rightarrow> version_data \<Rightarrow> project_config \<Rightarrow> string \<Rightarrow> bool
   \<Rightarrow> error + string" where
  "frontmatter name version pkgData versionData projectConfig searchIndex isLatest =
     (case (to_string_opt (description pkgData),
            optional_line ''keywords: '' (Some (cfg_keywords projectConfig)),
            optional_line ''homepage: '' (cfg_homepage projectConfig),
            optional_line ''license: '' (cfg_license projectConfig)) of
        (Inr descr, Inr kw, Inr hp, Inr lic) \<Rightarrow>
          Inr (''---'' @ newline
               @ ''title: '' @ name @ newline
               @ ''version: '' @ version @ newline
               @ ''description: '' @ descr @ newline
               @ ''latest: '' @ (if isLatest then ''true'' else ''false'')
               @ kw @ hp @ lic
               @ newline
               @ ''searchIndex: '' @ [CHR 0x22]
               @ replace_char (CHR 0x22) [CHR 0x5C, CHR 0x22] searchIndex
               @ [CHR 0x22] @ newline
               @ ''dependencies: '' @ stringify_strings (dependencies versionData) @ newline
               @ ''---'' @ newline @ newline)
      | _ \<Rightarrow> Inl TypeError)"

definition callout :: string where
  "callout = ''<div class='' @ [CHR 0x22] @ ''auto-doc-callout'' @ [CHR 0x22] @ ''>'' @ newline
     @ ''This package does not have a custom README. This page was automatically generated from package metadata.''
     @ newline @ ''</div>'' @ newline"

definition synthesizeReadme ::
  "string \<Rightarrow> string \<Rightarrow> pkg_data \<Rightarrow> version_data \<Rightarrow> json \<Rightarrow> project_config \<Rightarrow> string \<Rightarrow> bool
   \<Rightarrow> error + string" where
  "synthesizeReadme name version pkgData versionData functionsData projectConfig searchIndex isLatest =
     (let deps = deps_text versionData
      in case frontmatter name version pkgData versionData projectConfig searchIndex isLatest of
           Inl e \<Rightarrow> Inl e
         | Inr front \<Rightarrow>
             (case generateApiDocs functionsData of
                Inl e \<Rightarrow> Inl e
              | Inr api \<Rightarrow> Inr (front @ api @ newline @ newline @ callout)))"

subsection \<open>Lines 75 to 146: the document and the metadata of one version\<close>

definition existing_readme ::
  "string \<Rightarrow> string \<Rightarrow> pkg_data \<Rightarrow> version_data \<Rightarrow> json \<Rightarrow> project_config \<Rightarrow> string \<Rightarrow> bool
   \<Rightarrow> string \<Rightarrow> error + string" where
  "existing_readme pkgName version pkgData versionData functionsData projectConfig searchIndex isLatest
     readmeContent =
     (case frontmatter pkgName version pkgData versionData projectConfig searchIndex isLatest of
        Inl e \<Rightarrow> Inl e
      | Inr front \<Rightarrow>
          if truthy functionsData then
            (case generateApiDocs functionsData of
               Inl e \<Rightarrow> Inl e
             | Inr api \<Rightarrow> Inr (front @ readmeContent @ newline @ newline @ api))
          else Inr (front @ readmeContent))"

definition build_artifact ::
  "(string \<Rightarrow> json option) \<Rightarrow> string \<Rightarrow> pkg_data \<Rightarrow> string \<Rightarrow> version_data \<Rightarrow> string \<Rightarrow> json
   \<Rightarrow> json \<Rightarrow> bool \<Rightarrow> error + string \<times> metadata" where
  "build_artifact parse pkgName pkgData version versionData readmeContent projectConfig
     functionsData docsFound =
     (let isLatest = (latest pkgData = Some (JStr version))
      in case get_prop projectConfig ''keywords'' of
           Inl e \<Rightarrow> Inl e
         | Inr raw \<Rightarrow>
             (case build_search_index pkgName (description pkgData) raw functionsData of
                Inl e \<Rightarrow> Inl e
              | Inr idx \<Rightarrow>
                  (case normalize_keywords parse raw of
                     Inl e \<Rightarrow> Inl e
                   | Inr keywords \<Rightarrow>
                       if \<not> assignable projectConfig then Inl TypeError
                       else
                         let cfg = \<lparr> cfg_keywords = keywords,
                                     cfg_homepage = prop_of projectConfig ''homepage'',
                                     cfg_license = prop_of projectConfig ''license'' \<rparr>
                         in case (if readmeContent = []
                                  then synthesizeReadme pkgName version pkgData versionData
                                         functionsData cfg idx isLatest
                                  else existing_readme pkgName version pkgData versionData
                                         functionsData cfg idx isLatest readmeContent) of
                              Inl e \<Rightarrow> Inl e
                            | Inr doc \<Rightarrow>
                                Inr (doc,
                                     \<lparr> m_name = pkgName, m_version = version,
                                       m_description = description pkgData,
                                       m_owners = owners pkgData,
                                       m_dependencies = dependencies versionData,
                                       m_latest = isLatest, m_hasDocs = docsFound,
                                       m_keywords = cfg_keywords cfg,
                                       m_homepage = cfg_homepage cfg,
                                       m_license = cfg_license cfg,
                                       m_searchIndex = idx,
                                       m_functions = functionsData \<rparr>))))"

subsection \<open>Lines 13 to 150 and 197: the loops\<close>

text \<open>One turn of the inner loop: the events it causes and the exception it throws, if
  any.\<close>

definition process_version ::
  "env \<Rightarrow> string \<Rightarrow> pkg_data \<Rightarrow> string \<Rightarrow> version_data \<Rightarrow> event list \<times> error option" where
  "process_version ev pkgName pkgData version versionData =
     (let gspkgPath = path_join [registry_root ev, path versionData];
          outputDir = path_join [content_dir ev, pkgName, version]
      in case files ev gspkgPath of
           None \<Rightarrow> ([EnsureDir outputDir, Warn (''Warning: '' @ gspkgPath @ '' not found.'')], None)
         | Some NotZip \<Rightarrow> ([EnsureDir outputDir], Some ZipError)
         | Some (Zip zipEntries) \<Rightarrow>
             let readmeContent = read_readme zipEntries;
                 project = read_project (json_parse ev) pkgName version zipEntries;
                 funcs = read_functions (json_parse ev) pkgName version zipEntries;
                 docs = extract_docs_folder outputDir zipEntries;
                 before = [EnsureDir outputDir] @ snd project @ snd funcs @ fst docs
             in case build_artifact (json_parse ev) pkgName pkgData version versionData
                       readmeContent (fst project) (fst funcs) (snd docs) of
                  Inl e \<Rightarrow> (before, Some e)
                | Inr (doc, meta) \<Rightarrow>
                    (before @ [WriteFile (path_join [outputDir, ''index.md'']) doc,
                               WriteJson (path_join [outputDir, ''metadata.json'']) meta],
                     None))"

fun run_versions ::
  "env \<Rightarrow> string \<Rightarrow> pkg_data \<Rightarrow> (string \<times> version_data) list \<Rightarrow> event list \<times> error option" where
  "run_versions ev pkgName pkgData [] = ([], None)"
| "run_versions ev pkgName pkgData ((version, versionData) # rest) =
     (case process_version ev pkgName pkgData version versionData of
        (evs, Some e) \<Rightarrow> (evs, Some e)
      | (evs, None) \<Rightarrow>
          (case run_versions ev pkgName pkgData rest of (evs', r) \<Rightarrow> (evs @ evs', r)))"

fun run_packages :: "env \<Rightarrow> (string \<times> pkg_data) list \<Rightarrow> event list \<times> error option" where
  "run_packages ev [] = ([], None)"
| "run_packages ev ((pkgName, pkgData) # rest) =
     (case run_versions ev pkgName pkgData (versions pkgData) of
        (evs, Some e) \<Rightarrow> (evs, Some e)
      | (evs, None) \<Rightarrow> (case run_packages ev rest of (evs', r) \<Rightarrow> (evs @ evs', r)))"

definition extractDocs :: "env \<Rightarrow> event list \<times> error option" where
  "extractDocs ev =
     (case index_json ev of
        None \<Rightarrow> ([], Some ReadError)
      | Some registry \<Rightarrow>
          (case run_packages ev registry of
             (evs, r) \<Rightarrow> ([EnsureDir (content_dir ev), EmptyDir (content_dir ev)] @ evs, r)))"

text \<open>Line 197: \<^verbatim>\<open>extractDocs().catch(console.error)\<close>.\<close>

definition main :: "env \<Rightarrow> event list" where
  "main ev = (case extractDocs ev of
                (evs, None) \<Rightarrow> evs
              | (evs, Some e) \<Rightarrow> evs @ [LogError e])"

subsection \<open>The API reference as the specification words it\<close>

definition entries_of :: "json \<Rightarrow> (string \<times> json) list" where
  "entries_of v = (case object_entries v of Inr es \<Rightarrow> es | Inl e \<Rightarrow> [])"

definition description_or :: "string \<Rightarrow> json \<Rightarrow> string" where
  "description_or fallback def =
     (case prop_of def ''description'' of
        Some d \<Rightarrow> if truthy d then js_to_string d else fallback
      | None \<Rightarrow> fallback)"

definition arguments_of :: "json \<Rightarrow> (string \<times> json) list" where
  "arguments_of funcDef =
     (case prop_of funcDef ''arguments'' of
        Some a \<Rightarrow> if truthy a then entries_of a else []
      | None \<Rightarrow> [])"

definition argument_line :: "string \<times> json \<Rightarrow> string" where
  "argument_line arg = ''- `'' @ fst arg @ ''`: '' @ description_or [] (snd arg) @ newline"

definition function_section :: "string \<times> json \<Rightarrow> string" where
  "function_section func =
     ''### `'' @ fst func @ ''`'' @ newline @ newline
     @ description_or ''No description provided.'' (snd func) @ newline @ newline
     @ (if arguments_of (snd func) = [] then []
        else ''**Arguments**:'' @ newline
             @ concat (map argument_line (arguments_of (snd func))) @ newline)"

definition api_reference :: "(string \<times> json) list \<Rightarrow> string" where
  "api_reference funcs = ''## API Reference'' @ newline @ newline @ concat (map function_section funcs)"

text \<open>A definition that is not \<^verbatim>\<open>null\<close> and whose description, if it has one, converts
  to a string.\<close>

definition describable :: "json \<Rightarrow> bool" where
  "describable def = (def \<noteq> JNull \<and> joinable (prop_of def ''description''))"

definition described_entries :: "(string \<times> json) list \<Rightarrow> bool" where
  "described_entries es = list_all (\<lambda>e. describable (snd e)) es"

text \<open>Every function definition and every argument definition is such a definition.\<close>

definition manifest_defined :: "(string \<times> json) list \<Rightarrow> bool" where
  "manifest_defined funcs =
     list_all (\<lambda>f. describable (snd f) \<and> described_entries (arguments_of (snd f))) funcs"

text \<open>No definition is \<^verbatim>\<open>null\<close>.\<close>

definition defined_entries :: "(string \<times> json) list \<Rightarrow> bool" where
  "defined_entries es = list_all (\<lambda>e. snd e \<noteq> JNull) es"

definition example_manifest :: json where
  "example_manifest =
     JObj [(''ISPRIME'',
            JObj [(''description'', JStr ''Checks whether the provided value is a prime.''),
                  (''arguments'',
                   JObj [(''value'', JObj [(''description'', JStr ''The value to be verified as prime.'')])])]),
           (''PRIMEVECTOR'',
            JObj [(''description'', JStr ''Generates a vector of prime numbers.''),
                  (''arguments'',
                   JObj [(''n'', JObj [(''description'', JStr ''The number of prime numbers to generate.'')])])])]"

subsection \<open>The search index as the specification words it\<close>

definition manifest_entries :: "json \<Rightarrow> (string \<times> json) list" where
  "manifest_entries functionsData = (if truthy functionsData then entries_of functionsData else [])"

definition function_parts :: "string \<times> json \<Rightarrow> json option list" where
  "function_parts func =
     Some (JStr (fst func))
     # (if truthy_opt (prop_of (snd func) ''description'')
        then [prop_of (snd func) ''description''] else [])"

text \<open>The parts of the search index, with the keywords part left open, and the text they
  give.\<close>

definition index_parts ::
  "string \<Rightarrow> json option \<Rightarrow> json option list \<Rightarrow> json \<Rightarrow> json option list" where
  "index_parts pkgName descr keywordsPart functionsData =
     [Some (JStr pkgName), descr] @ keywordsPart
     @ concat (map function_parts (manifest_entries functionsData))"

definition index_of_parts ::
  "string \<Rightarrow> json option \<Rightarrow> json option list \<Rightarrow> json \<Rightarrow> string" where
  "index_of_parts pkgName descr keywordsPart functionsData =
     trim (collapse_ws (join_strings '' ''
       (map join_elem_opt (index_parts pkgName descr keywordsPart functionsData))))"

text \<open>Section 4.4 of the specification: the keywords part is the normalised keywords, if
  they are not empty.\<close>

definition normalized_part :: "(string \<Rightarrow> json option) \<Rightarrow> json option \<Rightarrow> json option list" where
  "normalized_part parse kw =
     (case normalize_keywords parse kw of
        Inr k \<Rightarrow> if truthy k then [Some k] else []
      | Inl e \<Rightarrow> [])"

definition search_index_as_specified ::
  "(string \<Rightarrow> json option) \<Rightarrow> string \<Rightarrow> json option \<Rightarrow> json option \<Rightarrow> json \<Rightarrow> string" where
  "search_index_as_specified parse pkgName descr kw functionsData =
     index_of_parts pkgName descr (normalized_part parse kw) functionsData"

definition example_description :: "json option" where
  "example_description = Some (JStr ''A small library for prime number utilities.'')"

definition example_keywords :: "json option" where
  "example_keywords = Some (JStr ''['prime numbers']'')"

subsection \<open>An example: version 0.1.0 of the package \<^verbatim>\<open>prime\<close>\<close>

definition example_pkg :: pkg_data where
  "example_pkg =
     \<lparr> description = example_description,
       owners = Some (JArr [JStr ''owner'']),
       versions = [(''0.1.0'', \<lparr> path = ''packages/prime/0.1.0/prime-0.1.0.gspkg'',
                                  dependencies = [] \<rparr>)],
       latest = Some (JStr ''0.1.0'') \<rparr>"

definition example_version :: version_data where
  "example_version = \<lparr> path = ''packages/prime/0.1.0/prime-0.1.0.gspkg'', dependencies = [] \<rparr>"

definition example_config :: json where
  "example_config =
     JObj [(''keywords'', JStr ''['prime numbers']''),
           (''homepage'', JStr ''https://sheets.wiki''),
           (''license'', JStr ''MIT'')]"

text \<open>The page \<^verbatim>\<open>site/src/content/packages/prime/0.1.0/index.md\<close> of the repository.\<close>

definition example_page :: string where
  \<open>example_page =
     ''---'' @ newline
     @ ''title: prime'' @ newline
     @ ''version: 0.1.0'' @ newline
     @ ''description: A small library for prime number utilities.'' @ newline
     @ ''latest: true'' @ newline
     @ ''keywords: prime numbers'' @ newline
     @ ''homepage: https://sheets.wiki'' @ newline
     @ ''license: MIT'' @ newline
     @ ''searchIndex: "prime A small library for prime number utilities. ['prime numbers'] ISPRIME Checks whether the provided value is a prime. PRIMEVECTOR Generates a vector of prime numbers."'' @ newline
     @ ''dependencies: []'' @ newline
     @ ''---'' @ newline
     @ [] @ newline
     @ ''## API Reference'' @ newline
     @ [] @ newline
     @ ''### `ISPRIME`'' @ newline
     @ [] @ newline
     @ ''Checks whether the provided value is a prime.'' @ newline
     @ [] @ newline
     @ ''**Arguments**:'' @ newline
     @ ''- `value`: The value to be verified as prime.'' @ newline
     @ [] @ newline
     @ ''### `PRIMEVECTOR`'' @ newline
     @ [] @ newline
     @ ''Generates a vector of prime numbers.'' @ newline
     @ [] @ newline
     @ ''**Arguments**:'' @ newline
     @ ''- `n`: The number of prime numbers to generate.'' @ newline
     @ [] @ newline
     @ [] @ newline
     @ [] @ newline
     @ ''<div class="auto-doc-callout">'' @ newline
     @ ''This package does not have a custom README. This page was automatically generated from package metadata.'' @ newline
     @ ''</div>'' @ newline\<close>

definition example_index :: string where
  "example_index = ''prime A small library for prime number utilities. ['prime numbers'] ISPRIME Checks whether the provided value is a prime. PRIMEVECTOR Generates a vector of prime numbers.''"

definition example_meta :: metadata where
  "example_meta =
     \<lparr> m_name = ''prime'', m_version = ''0.1.0'',
       m_description = example_description,
       m_owners = Some (JArr [JStr ''owner'']),
       m_dependencies = [],
       m_latest = True, m_hasDocs = False,
       m_keywords = JStr ''prime numbers'',
       m_homepage = Some (JStr ''https://sheets.wiki''),
       m_license = Some (JStr ''MIT''),
       m_searchIndex = example_index,
       m_functions = example_manifest \<rparr>"

subsection \<open>Keyword representations\<close>

text \<open>A string that begins with \<^verbatim>\<open>[\<close> and ends with \<^verbatim>\<open>]\<close>.\<close>

definition bracketed :: "string \<Rightarrow> bool" where
  "bracketed s = (startsWith s ''['' \<and> endsWith s '']'')"

text \<open>The representations of section 4.3: absent, a string, or a list of strings.\<close>

fun is_string :: "json \<Rightarrow> bool" where
  "is_string (JStr s) = True"
| "is_string v = False"

fun keyword_representation :: "json option \<Rightarrow> bool" where
  "keyword_representation None = True"
| "keyword_representation (Some (JStr s)) = True"
| "keyword_representation (Some (JArr xs)) = list_all is_string xs"
| "keyword_representation (Some v) = False"

text \<open>The text handed to \<^verbatim>\<open>JSON.parse\<close> in line 97, the keywords that an array gives, and
  the first of the keywords that the handler of line 103 cuts out of a string.\<close>

definition sanitized :: "string \<Rightarrow> string" where
  "sanitized s = replace_char (CHR 0x27) [CHR 0x22] s"

definition joined_keywords :: "json list \<Rightarrow> string" where
  "joined_keywords xs = join_strings '', '' (map js_join_elem xs)"

definition first_token :: "string \<Rightarrow> string" where
  "first_token s = strip_quotes (trim (hd (split_on (CHR '','') (slice_1_m1 s))))"

text \<open>The first element of an array, if there is one, does not begin with \<^verbatim>\<open>[\<close> when
  converted to a string.\<close>

fun first_plain :: "json list \<Rightarrow> bool" where
  "first_plain [] = True"
| "first_plain (y # ys) = (\<not> startsWith (js_join_elem y) ''['')"

text \<open>
  Representations that do not lead to a bracketed result: absent; a string that is not
  bracketed; a bracketed string that parses to an array whose first element does not begin
  with \<^verbatim>\<open>[\<close>, or that does not parse and whose first keyword does not begin with
  \<^verbatim>\<open>[\<close>; an array whose first element does not begin with \<^verbatim>\<open>[\<close>.
\<close>

fun plain_keywords :: "(string \<Rightarrow> json option) \<Rightarrow> json option \<Rightarrow> bool" where
  "plain_keywords parse None = True"
| "plain_keywords parse (Some (JStr s)) =
     (if bracketed s then
        (case parse (sanitized s) of
           Some (JArr ys) \<Rightarrow>
             if list_all stringable ys then first_plain ys
             else \<not> startsWith (first_token s) ''[''
         | Some other \<Rightarrow> False
         | None \<Rightarrow> \<not> startsWith (first_token s) ''['')
      else True)"
| "plain_keywords parse (Some (JArr xs)) = first_plain xs"
| "plain_keywords parse (Some v) = False"

subsection \<open>The emitted document\<close>

text \<open>The descriptor fields as the metadata record them.\<close>

definition meta_config :: "metadata \<Rightarrow> project_config" where
  "meta_config meta =
     \<lparr> cfg_keywords = m_keywords meta, cfg_homepage = m_homepage meta,
       cfg_license = m_license meta \<rparr>"

definition meta_frontmatter :: "pkg_data \<Rightarrow> version_data \<Rightarrow> metadata \<Rightarrow> error + string" where
  "meta_frontmatter pkgData versionData meta =
     frontmatter (m_name meta) (m_version meta) pkgData versionData (meta_config meta)
       (m_searchIndex meta) (m_latest meta)"

definition empty_readme_entry :: zip_entry where
  "empty_readme_entry = \<lparr> entryName = ''readme.md'', isDirectory = False, entry_data = [] \<rparr>"

definition example_readme_entry :: zip_entry where
  "example_readme_entry = \<lparr> entryName = ''README.md'', isDirectory = False, entry_data = ''# prime'' \<rparr>"

text \<open>The page of the example when the archive has the readme \<^verbatim>\<open># prime\<close>.\<close>

definition example_readme_page :: string where
  \<open>example_readme_page =
     ''---'' @ newline
     @ ''title: prime'' @ newline
     @ ''version: 0.1.0'' @ newline
     @ ''description: A small library for prime number utilities.'' @ newline
     @ ''latest: true'' @ newline
     @ ''keywords: prime numbers'' @ newline
     @ ''homepage: https://sheets.wiki'' @ newline
     @ ''license: MIT'' @ newline
     @ ''searchIndex: "prime A small library for prime number utilities. ['prime numbers'] ISPRIME Checks whether the provided value is a prime. PRIMEVECTOR Generates a vector of prime numbers."'' @ newline
     @ ''dependencies: []'' @ newline
     @ ''---'' @ newline
     @ [] @ newline
     @ ''# prime'' @ newline @ newline
     @ ''## API Reference'' @ newline
     @ [] @ newline
     @ ''### `ISPRIME`'' @ newline
     @ [] @ newline
     @ ''Checks whether the provided value is a prime.'' @ newline
     @ [] @ newline
     @ ''**Arguments**:'' @ newline
     @ ''- `value`: The value to be verified as prime.'' @ newline
     @ [] @ newline
     @ ''### `PRIMEVECTOR`'' @ newline
     @ [] @ newline
     @ ''Generates a vector of prime numbers.'' @ newline
     @ [] @ newline
     @ ''**Arguments**:'' @ newline
     @ ''- `n`: The number of prime numbers to generate.'' @ newline
     @ [] @ newline\<close>

subsection \<open>The docs folder\<close>

definition docs_events :: "string \<Rightarrow> zip_entry \<Rightarrow> event list" where
  "docs_events outputDir e =
     [EnsureDir (path_dirname (docs_target outputDir e)),
      WriteFile (docs_target outputDir e) (entry_data e)]"

definition version_dir :: "env \<Rightarrow> string \<Rightarrow> string \<Rightarrow> string" where
  "version_dir ev pkgName version = path_join [content_dir ev, pkgName, version]"

definition archive_path :: "env \<Rightarrow> version_data \<Rightarrow> string" where
  "archive_path ev versionData = path_join [registry_root ev, path versionData]"




text \<open>The events of one version before its document is written.\<close>

definition events_before :: "env \<Rightarrow> string \<Rightarrow> string \<Rightarrow> zip_entry list \<Rightarrow> event list" where
  "events_before ev pkgName version zipEntries =
     [EnsureDir (version_dir ev pkgName version)]
     @ snd (read_project (json_parse ev) pkgName version zipEntries)
     @ snd (read_functions (json_parse ev) pkgName version zipEntries)
     @ concat (map (docs_events (version_dir ev pkgName version)) (filter is_docs_file zipEntries))"

definition version_artifact ::
  "env \<Rightarrow> string \<Rightarrow> pkg_data \<Rightarrow> string \<Rightarrow> version_data \<Rightarrow> zip_entry list \<Rightarrow> error + string \<times> metadata" where
  "version_artifact ev pkgName pkgData version versionData zipEntries =
     build_artifact (json_parse ev) pkgName pkgData version versionData (read_readme zipEntries)
       (fst (read_project (json_parse ev) pkgName version zipEntries))
       (fst (read_functions (json_parse ev) pkgName version zipEntries))
       (list_ex is_docs_file zipEntries)"

text \<open>The archive of the example: the descriptor, the manifest and further entries.\<close>

definition example_archive :: "zip_entry list \<Rightarrow> zip_entry list" where
  \<open>example_archive extra =
     \<lparr> entryName = ''__GSPROJECT__.json'', isDirectory = False,
       entry_data = ''{"keywords": "['prime numbers']", "homepage": "https://sheets.wiki", "license": "MIT"}'' \<rparr>
     # \<lparr> entryName = ''functions.json'', isDirectory = False,
         entry_data = ''{"ISPRIME": {"description": "Checks whether the provided value is a prime.", "arguments": {"value": {"description": "The value to be verified as prime."}}}, "PRIMEVECTOR": {"description": "Generates a vector of prime numbers.", "arguments": {"n": {"description": "The number of prime numbers to generate."}}}}'' \<rparr>
     # extra\<close>




subsection \<open>A registry with an older version\<close>

definition old_version :: version_data where
  "old_version = \<lparr> path = ''packages/prime/0.0.9/prime-0.0.9.gspkg'', dependencies = [] \<rparr>"

definition example_pkg2 :: pkg_data where
  "example_pkg2 = example_pkg \<lparr> versions := [(''0.0.9'', old_version), (''0.1.0'', example_version)] \<rparr>"

text \<open>The environment of the example with the older version listed first; \<open>old\<close> is what
  is found at the path of its archive.\<close>

definition example_env2 :: "archive_file option \<Rightarrow> env" where
  "example_env2 old =
     \<lparr> registry_root = ''/registry'',
       content_dir = ''/registry/site/src/content/packages'',
       index_json = Some [(''prime'', example_pkg2)],
       files = (\<lambda>p. if p = ''/registry/packages/prime/0.0.9/prime-0.0.9.gspkg'' then old
                     else if p = ''/registry/packages/prime/0.1.0/prime-0.1.0.gspkg''
                     then Some (Zip (example_archive [])) else None),
       json_parse = JSON_parse \<rparr>"

definition missing_events :: "env \<Rightarrow> string \<Rightarrow> string \<Rightarrow> version_data \<Rightarrow> event list" where
  "missing_events ev pkgName version versionData =
     [EnsureDir (version_dir ev pkgName version),
      Warn (''Warning: '' @ archive_path ev versionData @ '' not found.'')]"

text \<open>How a version ends once its entries have been read with the descriptor
  \<open>projectConfig\<close> and the manifest \<open>functionsData\<close>.\<close>

definition version_outcome ::
  "env \<Rightarrow> string \<Rightarrow> pkg_data \<Rightarrow> string \<Rightarrow> version_data \<Rightarrow> zip_entry list \<Rightarrow> json \<Rightarrow> json
   \<Rightarrow> event list \<times> error option" where
  "version_outcome ev pkgName pkgData version versionData zipEntries projectConfig functionsData =
     (case build_artifact (json_parse ev) pkgName pkgData version versionData
             (read_readme zipEntries) projectConfig functionsData (list_ex is_docs_file zipEntries) of
        Inl e \<Rightarrow> (events_before ev pkgName version zipEntries, Some e)
      | Inr (doc, meta) \<Rightarrow>
          (events_before ev pkgName version zipEntries
           @ [WriteFile (path_join [version_dir ev pkgName version, ''index.md'']) doc,
              WriteJson (path_join [version_dir ev pkgName version, ''metadata.json'']) meta],
           None))"

definition broken_descriptor :: zip_entry where
  "broken_descriptor = \<lparr> entryName = ''__GSPROJECT__.json'', isDirectory = False, entry_data = ''{oops'' \<rparr>"

definition broken_manifest :: zip_entry where
  "broken_manifest = \<lparr> entryName = ''functions.json'', isDirectory = False, entry_data = ''[true,'' \<rparr>"

subsection \<open>Text inside a page\<close>

fun contains :: "string \<Rightarrow> string \<Rightarrow> bool" where
  "contains [] pat = (pat = [])"
| "contains (c # cs) pat = (startsWith (c # cs) pat \<or> contains cs pat)"

definition linked_version :: version_data where
  "linked_version = \<lparr> path = ''packages/prime/0.1.0/prime-0.1.0.gspkg'',
                       dependencies = [''pkg>=1.2.0'', ''pkg@2.0.0''] \<rparr>"

text \<open>The synthesised page of the example with these two dependencies.\<close>

definition linked_page :: string where
  \<open>linked_page =
     ''---'' @ newline
     @ ''title: prime'' @ newline
     @ ''version: 0.1.0'' @ newline
     @ ''description: A small library for prime number utilities.'' @ newline
     @ ''latest: true'' @ newline
     @ ''keywords: prime numbers'' @ newline
     @ ''homepage: https://sheets.wiki'' @ newline
     @ ''license: MIT'' @ newline
     @ ''searchIndex: "prime A small library for prime number utilities. ['prime numbers'] ISPRIME Checks whether the provided value is a prime. PRIMEVECTOR Generates a vector of prime numbers."'' @ newline
     @ ''dependencies: ["pkg>=1.2.0","pkg@2.0.0"]'' @ newline
     @ ''---'' @ newline
     @ [] @ newline
     @ ''## API Reference'' @ newline
     @ [] @ newline
     @ ''### `ISPRIME`'' @ newline
     @ [] @ newline
     @ ''Checks whether the provided value is a prime.'' @ newline
     @ [] @ newline
     @ ''**Arguments**:'' @ newline
     @ ''- `value`: The value to be verified as prime.'' @ newline
     @ [] @ newline
     @ ''### `PRIMEVECTOR`'' @ newline
     @ [] @ newline
     @ ''Generates a vector of prime numbers.'' @ newline
     @ [] @ newline
     @ ''**Arguments**:'' @ newline
     @ ''- `n`: The number of prime numbers to generate.'' @ newline
     @ [] @ newline
     @ [] @ newline
     @ [] @ newline
     @ ''<div class="auto-doc-callout">'' @ newline
     @ ''This package does not have a custom README. This page was automatically generated from package metadata.'' @ newline
     @ ''</div>'' @ newline\<close>

subsection \<open>Entries at the top level of an archive\<close>

definition top_level :: "zip_entry \<Rightarrow> bool" where
  "top_level e = (CHR ''/'' \<notin> set (entryName e))"

definition nested_readme :: zip_entry where
  "nested_readme = \<lparr> entryName = ''sub/readme.md'', isDirectory = False, entry_data = ''nested'' \<rparr>"

definition second_readme :: zip_entry where
  "second_readme = \<lparr> entryName = ''readme.md'', isDirectory = False, entry_data = ''second'' \<rparr>"

definition nested_descriptor :: zip_entry where
  \<open>nested_descriptor = \<lparr> entryName = ''sub/__gsproject__.json'', isDirectory = False,
                          entry_data = ''{"license": "nested"}'' \<rparr>\<close>

definition first_descriptor :: zip_entry where
  \<open>first_descriptor = \<lparr> entryName = ''__GSProject__.JSON'', isDirectory = False,
                         entry_data = ''{"license": "first"}'' \<rparr>\<close>

definition second_descriptor :: zip_entry where
  \<open>second_descriptor = \<lparr> entryName = ''__gsproject__.json'', isDirectory = False,
                          entry_data = ''{"license": "second"}'' \<rparr>\<close>

definition nested_manifest :: zip_entry where
  \<open>nested_manifest = \<lparr> entryName = ''sub/functions.json'', isDirectory = False,
                        entry_data = ''{"NESTED": {}}'' \<rparr>\<close>

definition first_manifest :: zip_entry where
  \<open>first_manifest = \<lparr> entryName = ''Functions.json'', isDirectory = False,
                       entry_data = ''{"FIRST": {}}'' \<rparr>\<close>

definition second_manifest :: zip_entry where
  \<open>second_manifest = \<lparr> entryName = ''functions.json'', isDirectory = False,
                        entry_data = ''{"SECOND": {}}'' \<rparr>\<close>

subsection \<open>The declared order of a manifest\<close>

text \<open>The object that \<^verbatim>\<open>JSON.parse\<close> builds from the members of an object literal, taken
  in the order of the text: each member is defined in turn, as \<open>complete\<close> does it.\<close>

definition build_object :: "(string \<times> json) list \<Rightarrow> (string \<times> json) list" where
  "build_object members = foldl (\<lambda>ms m. obj_put ms (fst m) (snd m)) [] members"

text \<open>A manifest that declares the functions \<^verbatim>\<open>B\<close>, \<^verbatim>\<open>10\<close>, \<^verbatim>\<open>A\<close> and \<^verbatim>\<open>9\<close>, in this
  order.\<close>

definition numbered_text :: string where
  \<open>numbered_text = ''{"B": {}, "10": {}, "A": {}, "9": {}}''\<close>

definition numbered_members :: "(string \<times> json) list" where
  "numbered_members = [(''B'', JObj []), (''10'', JObj []), (''A'', JObj []), (''9'', JObj [])]"

subsection \<open>Values that convert to strings\<close>

text \<open>The description of the package and the keywords, the homepage and the license of the
  descriptor all convert to strings.\<close>

definition convertible :: "pkg_data \<Rightarrow> json \<Rightarrow> bool" where
  "convertible pkgData projectConfig =
     (joinable (description pkgData) \<and> joinable (prop_of projectConfig ''keywords'')
      \<and> joinable (prop_of projectConfig ''homepage'')
      \<and> joinable (prop_of projectConfig ''license''))"

subsection \<open>Well-formed UTF-8\<close>

text \<open>A content is well-formed UTF-8 when each of its characters is: decoding never meets
  bytes that are not a character.\<close>

fun valid_from :: "nat \<Rightarrow> string \<Rightarrow> bool" where
  "valid_from k [] = True"
| "valid_from (Suc k) (c # cs) = valid_from k cs"
| "valid_from 0 (c # cs) =
     (case utf8_head c cs of (n, ok) \<Rightarrow> ok \<and> valid_from (n - 1) cs)"

definition valid_utf8 :: "string \<Rightarrow> bool" where
  "valid_utf8 s = valid_from 0 s"

text \<open>The front matter of the pages of the example.\<close>

definition example_frontmatter :: string where
  \<open>example_frontmatter =
     ''---'' @ newline
     @ ''title: prime'' @ newline
     @ ''version: 0.1.0'' @ newline
     @ ''description: A small library for prime number utilities.'' @ newline
     @ ''latest: true'' @ newline
     @ ''keywords: prime numbers'' @ newline
     @ ''homepage: https://sheets.wiki'' @ newline
     @ ''license: MIT'' @ newline
     @ ''searchIndex: "prime A small library for prime number utilities. ['prime numbers'] ISPRIME Checks whether the provided value is a prime. PRIMEVECTOR Generates a vector of prime numbers."'' @ newline
     @ ''dependencies: []'' @ newline
     @ ''---'' @ newline
     @ [] @ newline\<close>

subsection \<open>A registry with a second package\<close>

definition other_version :: version_data where
  "other_version = \<lparr> path = ''packages/other/1.0.0/other-1.0.0.gspkg'', dependencies = [] \<rparr>"

definition other_pkg :: pkg_data where
  "other_pkg = \<lparr> description = None, owners = None, versions = [(''1.0.0'', other_version)],
                 latest = None \<rparr>"

text \<open>The environment of the example with the older version listed first and the package
  \<^verbatim>\<open>other\<close> after the package \<^verbatim>\<open>prime\<close>; the archive of \<^verbatim>\<open>other\<close> has no entries.\<close>

definition example_env3 :: "archive_file option \<Rightarrow> env" where
  "example_env3 old =
     \<lparr> registry_root = ''/registry'',
       content_dir = ''/registry/site/src/content/packages'',
       index_json = Some [(''prime'', example_pkg2), (''other'', other_pkg)],
       files = (\<lambda>p. if p = ''/registry/packages/prime/0.0.9/prime-0.0.9.gspkg'' then old
                     else if p = ''/registry/packages/prime/0.1.0/prime-0.1.0.gspkg''
                     then Some (Zip (example_archive []))
                     else if p = ''/registry/packages/other/1.0.0/other-1.0.0.gspkg''
                     then Some (Zip []) else None),
       json_parse = JSON_parse \<rparr>"

definition other_page :: string where
  \<open>other_page =
     ''---'' @ newline
     @ ''title: other'' @ newline
     @ ''version: 1.0.0'' @ newline
     @ ''description: undefined'' @ newline
     @ ''latest: false'' @ newline
     @ ''searchIndex: "other"'' @ newline
     @ ''dependencies: []'' @ newline
     @ ''---'' @ newline
     @ [] @ newline
     @ [] @ newline
     @ [] @ newline
     @ ''<div class="auto-doc-callout">'' @ newline
     @ ''This package does not have a custom README. This page was automatically generated from package metadata.'' @ newline
     @ ''</div>'' @ newline\<close>

definition other_meta :: metadata where
  "other_meta =
     \<lparr> m_name = ''other'', m_version = ''1.0.0'', m_description = None, m_owners = None,
       m_dependencies = [], m_latest = False, m_hasDocs = False, m_keywords = JStr [],
       m_homepage = None, m_license = None, m_searchIndex = ''other'', m_functions = JNull \<rparr>"

section \<open>Properties\<close>

subsection \<open>Looking up the named entries\<close>

lemma lower_char_slash: "lower_char c = CHR ''/'' \<longleftrightarrow> c = CHR ''/''"
proof
  assume h: "lower_char c = CHR ''/''"
  show "c = CHR ''/''"
  proof (cases "65 \<le> (of_char c :: nat) \<and> (of_char c :: nat) \<le> 90")
    case True
    then have "lower_char c = char_of ((of_char c :: nat) + 32)"
      by (simp add: lower_char_def Let_def)
    with h have "(of_char (char_of ((of_char c :: nat) + 32)) :: nat) = of_char (CHR ''/'')"
      by simp
    then have "((of_char c :: nat) + 32) mod 256 = 47" by simp
    with True show ?thesis by simp
  next
    case False
    with h show ?thesis by (simp add: lower_char_def Let_def)
  qed
next
  assume "c = CHR ''/''"
  then show "lower_char c = CHR ''/''" by (simp add: lower_char_def)
qed

lemma toLowerCase_slash: "CHR ''/'' \<in> set (toLowerCase s) \<longleftrightarrow> CHR ''/'' \<in> set s"
proof -
  have "CHR ''/'' \<in> lower_char ` set s \<longleftrightarrow> CHR ''/'' \<in> set s"
    using lower_char_slash by (metis imageE image_eqI)
  then show ?thesis by (simp add: toLowerCase_def)
qed

lemma find_entry_Some:
  "find_entry fname zipEntries = Some e \<Longrightarrow> toLowerCase (entryName e) = fname \<and> e \<in> set zipEntries"
  unfolding find_entry_def by (induction zipEntries) (auto split: if_splits)

lemma find_entry_first:
  "\<lbrakk>\<forall>x \<in> set pre. toLowerCase (entryName x) \<noteq> fname; toLowerCase (entryName e) = fname\<rbrakk>
   \<Longrightarrow> find_entry fname (pre @ e # post) = Some e"
  unfolding find_entry_def by (induction pre) auto

text \<open>An entry inside a directory has a \<^verbatim>\<open>/\<close> in its name, which none of the three file
  names has: the lookup passes over it.\<close>

lemma find_entry_top_level:
  assumes "CHR ''/'' \<notin> set fname"
  shows "find_entry fname (filter top_level zipEntries) = find_entry fname zipEntries"
proof (induction zipEntries)
  case Nil
  then show ?case by simp
next
  case (Cons x xs)
  have "toLowerCase (entryName x) \<noteq> fname" if "\<not> top_level x"
    using that assms toLowerCase_slash [of "entryName x"] by (auto simp: top_level_def)
  with Cons show ?case by (auto simp: find_entry_def)
qed

text \<open>
  Claim C10. The readme, the project descriptor and the function manifest are looked up by
  comparing the lower-cased full entry name with the exact file name. So the three readers
  give what they would give if the archive had no entry inside a directory (no entry with a
  \<^verbatim>\<open>/\<close> in its name): such an entry is never the one read. And of several entries that
  match, the first in the archive's order is the one read: the readme text is the decoded
  content of that entry, and the descriptor and the manifest are what \<^verbatim>\<open>JSON.parse\<close> makes
  of the decoded content of that entry, or the default and a warning where it throws.
\<close>

theorem named_entry_lookup:
  "read_readme (filter top_level zipEntries) = read_readme zipEntries
   \<and> read_project parse pkgName version (filter top_level zipEntries)
     = read_project parse pkgName version zipEntries
   \<and> read_functions parse pkgName version (filter top_level zipEntries)
     = read_functions parse pkgName version zipEntries
   \<and> ((\<forall>x \<in> set preR. toLowerCase (entryName x) \<noteq> ''readme.md'')
        \<and> toLowerCase (entryName readmeEntry) = ''readme.md'' \<longrightarrow>
      read_readme (preR @ readmeEntry # postR) = toString_utf8 (entry_data readmeEntry))
   \<and> ((\<forall>x \<in> set preP. toLowerCase (entryName x) \<noteq> ''__gsproject__.json'')
        \<and> toLowerCase (entryName projectEntry) = ''__gsproject__.json'' \<longrightarrow>
      read_project parse pkgName version (preP @ projectEntry # postP)
        = (case parse (toString_utf8 (entry_data projectEntry)) of
             Some v \<Rightarrow> (v, [])
           | None \<Rightarrow> (JObj [], [Warn (''failed to parse __GSPROJECT__.json for ''
                                      @ pkgName @ ''@'' @ version)])))
   \<and> ((\<forall>x \<in> set preF. toLowerCase (entryName x) \<noteq> ''functions.json'')
        \<and> toLowerCase (entryName functionsEntry) = ''functions.json'' \<longrightarrow>
      read_functions parse pkgName version (preF @ functionsEntry # postF)
        = (case parse (toString_utf8 (entry_data functionsEntry)) of
             Some v \<Rightarrow> (v, [])
           | None \<Rightarrow> (JNull, [Warn (''failed to parse functions.json for ''
                                    @ pkgName @ ''@'' @ version)])))"
proof -
  have a: "read_readme (filter top_level zipEntries) = read_readme zipEntries"
    by (simp add: read_readme_def find_entry_top_level)
  have b: "read_project parse pkgName version (filter top_level zipEntries)
           = read_project parse pkgName version zipEntries"
    by (simp add: read_project_def find_entry_top_level)
  have c: "read_functions parse pkgName version (filter top_level zipEntries)
           = read_functions parse pkgName version zipEntries"
    by (simp add: read_functions_def find_entry_top_level)
  have d: "read_readme (preR @ readmeEntry # postR) = toString_utf8 (entry_data readmeEntry)"
    if "\<forall>x \<in> set preR. toLowerCase (entryName x) \<noteq> ''readme.md''"
      "toLowerCase (entryName readmeEntry) = ''readme.md''"
    using find_entry_first [OF that] by (simp add: read_readme_def)
  have e: "read_project parse pkgName version (preP @ projectEntry # postP)
        = (case parse (toString_utf8 (entry_data projectEntry)) of
             Some v \<Rightarrow> (v, [])
           | None \<Rightarrow> (JObj [], [Warn (''failed to parse __GSPROJECT__.json for ''
                                      @ pkgName @ ''@'' @ version)]))"
    if "\<forall>x \<in> set preP. toLowerCase (entryName x) \<noteq> ''__gsproject__.json''"
      "toLowerCase (entryName projectEntry) = ''__gsproject__.json''"
    using find_entry_first [OF that] by (simp add: read_project_def)
  have f: "read_functions parse pkgName version (preF @ functionsEntry # postF)
        = (case parse (toString_utf8 (entry_data functionsEntry)) of
             Some v \<Rightarrow> (v, [])
           | None \<Rightarrow> (JNull, [Warn (''failed to parse functions.json for ''
                                    @ pkgName @ ''@'' @ version)]))"
    if "\<forall>x \<in> set preF. toLowerCase (entryName x) \<noteq> ''functions.json''"
      "toLowerCase (entryName functionsEntry) = ''functions.json''"
    using find_entry_first [OF that] by (simp add: read_functions_def)
  from a b c d e f show ?thesis by blast
qed

theorem named_entry_lookup_witness:
  "read_readme [nested_readme] = []
   \<and> read_readme [nested_readme, example_readme_entry, second_readme] = ''# prime''
   \<and> read_project JSON_parse ''prime'' ''0.1.0'' [nested_descriptor, first_descriptor, second_descriptor]
     = (JObj [(''license'', JStr ''first'')], [])
   \<and> read_functions JSON_parse ''prime'' ''0.1.0'' [nested_manifest, first_manifest, second_manifest]
     = (JObj [(''FIRST'', JObj [])], [])"
proof -
  have p1: "\<forall>x \<in> set [nested_readme]. toLowerCase (entryName x) \<noteq> ''readme.md''" by code_simp
  have q1: "toLowerCase (entryName example_readme_entry) = ''readme.md''" by code_simp
  have p2: "\<forall>x \<in> set [nested_descriptor]. toLowerCase (entryName x) \<noteq> ''__gsproject__.json''"
    by code_simp
  have q2: "toLowerCase (entryName first_descriptor) = ''__gsproject__.json''" by code_simp
  have p3: "\<forall>x \<in> set [nested_manifest]. toLowerCase (entryName x) \<noteq> ''functions.json''"
    by code_simp
  have q3: "toLowerCase (entryName first_manifest) = ''functions.json''" by code_simp
  have t: "filter top_level [nested_readme] = []" by code_simp
  have r: "toString_utf8 (entry_data example_readme_entry) = ''# prime''" by code_simp
  have v2: "JSON_parse (toString_utf8 (entry_data first_descriptor))
            = Some (JObj [(''license'', JStr ''first'')])" by code_simp
  have v3: "JSON_parse (toString_utf8 (entry_data first_manifest))
            = Some (JObj [(''FIRST'', JObj [])])" by code_simp
  note inst = named_entry_lookup [where zipEntries = "[nested_readme]" and parse = JSON_parse
      and pkgName = "''prime''" and version = "''0.1.0''"
      and preR = "[nested_readme]" and readmeEntry = example_readme_entry and postR = "[second_readme]"
      and preP = "[nested_descriptor]" and projectEntry = first_descriptor
      and postP = "[second_descriptor]"
      and preF = "[nested_manifest]" and functionsEntry = first_manifest
      and postF = "[second_manifest]"]
  from inst p1 q1 have a: "read_readme ([nested_readme] @ example_readme_entry # [second_readme])
                          = toString_utf8 (entry_data example_readme_entry)"
    by blast
  from inst p2 q2 have b: "read_project JSON_parse ''prime'' ''0.1.0''
                            ([nested_descriptor] @ first_descriptor # [second_descriptor])
        = (case JSON_parse (toString_utf8 (entry_data first_descriptor)) of
             Some v \<Rightarrow> (v, [])
           | None \<Rightarrow> (JObj [], [Warn (''failed to parse __GSPROJECT__.json for ''
                                      @ ''prime'' @ ''@'' @ ''0.1.0'')]))"
    by blast
  from inst p3 q3 have c: "read_functions JSON_parse ''prime'' ''0.1.0''
                            ([nested_manifest] @ first_manifest # [second_manifest])
        = (case JSON_parse (toString_utf8 (entry_data first_manifest)) of
             Some v \<Rightarrow> (v, [])
           | None \<Rightarrow> (JNull, [Warn (''failed to parse functions.json for ''
                                    @ ''prime'' @ ''@'' @ ''0.1.0'')]))"
    by blast
  from inst have "read_readme (filter top_level [nested_readme]) = read_readme [nested_readme]"
    by blast
  then have d: "read_readme [nested_readme] = []"
    unfolding t by (simp add: read_readme_def find_entry_def)
  from a b c d show ?thesis unfolding r v2 v3 by simp
qed

subsection \<open>The API reference\<close>

lemma object_entries_truthy: "truthy v \<Longrightarrow> object_entries v = Inr (entries_of v)"
  by (cases v) (simp_all add: entries_of_def)

lemma get_prop_defined: "v \<noteq> JNull \<Longrightarrow> get_prop v k = Inr (prop_of v k)"
  by (simp add: get_prop_def)

lemma truthy_opt_simps: "truthy_opt None = False" "truthy_opt (Some v) = truthy v"
  by (simp_all add: truthy_opt_def)

lemma falsy_stringable: "\<not> truthy v \<Longrightarrow> stringable v"
  by (cases v) simp_all

lemma description_text_eq:
  "description_text def fallback =
     (if describable def then Inr (description_or fallback def) else Inl TypeError)"
proof (cases "def = JNull")
  case True
  then show ?thesis by (simp add: description_text_def get_prop_def describable_def)
next
  case False
  show ?thesis
  proof (cases "prop_of def ''description''")
    case None
    with False show ?thesis
      by (simp add: description_text_def get_prop_def describable_def description_or_def
          truthy_opt_simps joinable_def)
  next
    case (Some d)
    with False show ?thesis
      using falsy_stringable [of d]
      by (simp add: description_text_def get_prop_def describable_def description_or_def
          truthy_opt_simps joinable_def to_string_opt_def to_string_def)
  qed
qed

lemma render_arguments_eq:
  "render_arguments es docs =
     (if described_entries es then Inr (docs @ concat (map argument_line es)) else Inl TypeError)"
proof (induction es arbitrary: docs)
  case Nil
  then show ?case by (simp add: described_entries_def)
next
  case (Cons a es)
  obtain argName argDef where a: "a = (argName, argDef)" by (cases a)
  have line: "argument_line (argName, argDef)
              = ''- `'' @ argName @ ''`: '' @ description_or [] argDef @ newline"
    by (simp add: argument_line_def)
  have split: "described_entries (a # es) = (describable argDef \<and> described_entries es)"
    using a by (simp add: described_entries_def)
  show ?case
    unfolding split using Cons.IH a line by (simp add: description_text_eq)
qed

lemma render_function_eq:
  "render_function funcName funcDef docs =
     (if describable funcDef \<and> described_entries (arguments_of funcDef)
      then Inr (docs @ function_section (funcName, funcDef)) else Inl TypeError)"
proof (cases "describable funcDef")
  case False
  then show ?thesis by (simp add: render_function_def description_text_eq)
next
  case d: True
  show ?thesis
  proof (cases "prop_of funcDef ''arguments''")
    case None
    then have "arguments_of funcDef = []" by (simp add: arguments_of_def)
    with None d show ?thesis
      by (simp add: render_function_def description_text_eq function_section_def
          Let_def truthy_opt_simps described_entries_def)
  next
    case (Some a)
    show ?thesis
    proof (cases "truthy a")
      case False
      with Some have "arguments_of funcDef = []" by (simp add: arguments_of_def)
      with Some False d show ?thesis
        by (simp add: render_function_def description_text_eq function_section_def
            Let_def truthy_opt_simps described_entries_def)
    next
      case True
      with Some have args: "arguments_of funcDef = entries_of a" by (simp add: arguments_of_def)
      have nil: "described_entries []" by (simp add: described_entries_def)
      from Some True d args show ?thesis
        by (cases "entries_of a = []")
           (simp_all add: render_function_def description_text_eq function_section_def
              Let_def truthy_opt_simps object_entries_truthy render_arguments_eq nil)
    qed
  qed
qed

lemma render_functions_eq:
  "render_functions funcs docs =
     (if manifest_defined funcs then Inr (docs @ concat (map function_section funcs))
      else Inl TypeError)"
proof (induction funcs arbitrary: docs)
  case Nil
  then show ?case by (simp add: manifest_defined_def)
next
  case (Cons f funcs)
  obtain funcName funcDef where f: "f = (funcName, funcDef)" by (cases f)
  show ?case
    using Cons.IH f by (simp add: render_function_eq manifest_defined_def)
qed

lemma generateApiDocs_eq:
  "generateApiDocs functionsData =
     (if \<not> truthy functionsData then Inr []
      else if manifest_defined (entries_of functionsData)
      then Inr (api_reference (entries_of functionsData))
      else Inl TypeError)"
  by (simp add: generateApiDocs_def object_entries_truthy render_functions_eq api_reference_def)

lemma obj_put_new:
  "k \<notin> fst ` set ms \<Longrightarrow> \<not> is_array_index k \<Longrightarrow> obj_put ms k v = ms @ [(k, v)]"
  by (simp add: obj_put_def)

lemma build_object_from:
  "distinct (map fst members) \<Longrightarrow> list_all (\<lambda>m. \<not> is_array_index (fst m)) members \<Longrightarrow>
   fst ` set acc \<inter> fst ` set members = {} \<Longrightarrow>
   foldl (\<lambda>ms m. obj_put ms (fst m) (snd m)) acc members = acc @ members"
proof (induction members arbitrary: acc)
  case Nil
  then show ?case by simp
next
  case (Cons m members)
  from Cons.prems have new: "fst m \<notin> fst ` set acc" and idx: "\<not> is_array_index (fst m)"
    by auto
  have step: "obj_put acc (fst m) (snd m) = acc @ [m]"
    using obj_put_new [OF new idx, of "snd m"] by simp
  have "fst ` set (acc @ [m]) \<inter> fst ` set members = {}"
    using Cons.prems by auto
  with Cons.IH [of "acc @ [m]"] Cons.prems step show ?case by simp
qed

text \<open>
  Claim C7, as amended. \<^verbatim>\<open>generateApiDocs\<close> returns the empty string for an absent
  manifest (indeed for any falsy one). Otherwise it visits the functions in the order in
  which \<^verbatim>\<open>Object.entries\<close> enumerates the parsed manifest, which for an object is the order
  of its properties: that is the declared order when the declared names are distinct and
  none of them is an array index, and otherwise the names that are array indices come
  first. If every function definition and every argument definition is other than
  \<^verbatim>\<open>null\<close> and has a description that converts to a string, if any, the result is the
  heading \<^verbatim>\<open>## API Reference\<close> followed, for each function, by the function name as inline
  code, its description or \<^verbatim>\<open>No description provided.\<close>, and, only when the function has
  at least one argument, the list headed \<^verbatim>\<open>**Arguments**:\<close> with one line per argument in
  the order of \<^verbatim>\<open>Object.entries\<close>: the name as inline code, then the description or
  nothing. If not, the generator throws a \<^verbatim>\<open>TypeError\<close>.
\<close>

theorem generateApiDocs_reference:
  "generateApiDocs JNull = Inr []
   \<and> generateApiDocs functionsData =
       (if \<not> truthy functionsData then Inr []
        else if manifest_defined (entries_of functionsData)
        then Inr (api_reference (entries_of functionsData))
        else Inl TypeError)
   \<and> entries_of (JObj funcs) = funcs
   \<and> (distinct (map fst members) \<and> list_all (\<lambda>m. \<not> is_array_index (fst m)) members \<longrightarrow>
        build_object members = members)"
proof -
  have "entries_of (JObj funcs) = funcs" by (simp add: entries_of_def)
  moreover have "build_object members = members"
    if "distinct (map fst members)" "list_all (\<lambda>m. \<not> is_array_index (fst m)) members"
    using build_object_from [OF that, of "[]"] by (simp add: build_object_def)
  moreover have "generateApiDocs JNull = Inr []" by (simp add: generateApiDocs_def)
  ultimately show ?thesis using generateApiDocs_eq by blast
qed

theorem generateApiDocs_reference_witness:
  "generateApiDocs example_manifest =
     Inr (''## API Reference'' @ newline @ newline
          @ ''### `ISPRIME`'' @ newline @ newline
          @ ''Checks whether the provided value is a prime.'' @ newline @ newline
          @ ''**Arguments**:'' @ newline
          @ ''- `value`: The value to be verified as prime.'' @ newline @ newline
          @ ''### `PRIMEVECTOR`'' @ newline @ newline
          @ ''Generates a vector of prime numbers.'' @ newline @ newline
          @ ''**Arguments**:'' @ newline
          @ ''- `n`: The number of prime numbers to generate.'' @ newline @ newline)
   \<and> build_object (entries_of example_manifest) = entries_of example_manifest"
proof -
  have t: "truthy example_manifest" by (simp add: example_manifest_def)
  have ok: "manifest_defined (entries_of example_manifest)"
    by (simp add: example_manifest_def manifest_defined_def described_entries_def entries_of_def
        arguments_of_def describable_def joinable_def)
  have d: "distinct (map fst (entries_of example_manifest))
           \<and> list_all (\<lambda>m. \<not> is_array_index (fst m)) (entries_of example_manifest)"
    by (simp add: example_manifest_def entries_of_def is_array_index_def is_digit_def)
  note inst = generateApiDocs_reference [of example_manifest _ "entries_of example_manifest"]
  from inst t ok
  have "generateApiDocs example_manifest = Inr (api_reference (entries_of example_manifest))"
    by simp
  moreover from inst d
  have "build_object (entries_of example_manifest) = entries_of example_manifest" by blast
  ultimately show ?thesis
    by (simp add: example_manifest_def api_reference_def function_section_def argument_line_def
        description_or_def arguments_of_def entries_of_def)
qed

text \<open>
  Claim C7, as the specification states it, fails in two ways. A manifest that declares
  the functions \<^verbatim>\<open>B\<close>, \<^verbatim>\<open>10\<close>, \<^verbatim>\<open>A\<close> and \<^verbatim>\<open>9\<close> in this order gives the sections of
  \<^verbatim>\<open>9\<close>, \<^verbatim>\<open>10\<close>, \<^verbatim>\<open>B\<close> and \<^verbatim>\<open>A\<close>. And a manifest with a function whose definition is
  \<^verbatim>\<open>null\<close> gives no section at all: the generator throws.
\<close>

theorem generateApiDocs_counterexample:
  \<open>JSON_parse numbered_text = Some (JObj (build_object numbered_members))
   \<and> generateApiDocs (JObj (build_object numbered_members))
     = Inr (''## API Reference'' @ newline @ newline
            @ ''### `9`'' @ newline @ newline @ ''No description provided.'' @ newline @ newline
            @ ''### `10`'' @ newline @ newline @ ''No description provided.'' @ newline @ newline
            @ ''### `B`'' @ newline @ newline @ ''No description provided.'' @ newline @ newline
            @ ''### `A`'' @ newline @ newline @ ''No description provided.'' @ newline @ newline)
   \<and> generateApiDocs (JObj (build_object numbered_members)) \<noteq> Inr (api_reference numbered_members)
   \<and> JSON_parse ''{"F": null}'' = Some (JObj [(''F'', JNull)])
   \<and> generateApiDocs (JObj [(''F'', JNull)]) = Inl TypeError\<close>
  by code_simp

subsection \<open>White space\<close>

lemma drop_spaces_head: "len [] = 0 \<Longrightarrow> len (drop_spaces len k s) = 0"
  by (induction len k s rule: drop_spaces.induct) simp_all

lemma drop_spaces_suffix: "\<exists>n. drop_spaces len k s = drop n s"
proof (induction len k s rule: drop_spaces.induct)
  case (1 len k)
  then show ?case by simp
next
  case (2 len k c cs)
  then obtain n where "drop_spaces len k cs = drop n cs" by blast
  then have "drop_spaces len (Suc k) (c # cs) = drop (Suc n) (c # cs)" by simp
  then show ?case by blast
next
  case (3 len c cs)
  show ?case
  proof (cases "0 < len (c # cs)")
    case True
    with 3 obtain n where "drop_spaces len (len (c # cs) - 1) cs = drop n cs" by blast
    with True have "drop_spaces len 0 (c # cs) = drop (Suc n) (c # cs)" by simp
    then show ?thesis by blast
  next
    case False
    then have "drop_spaces len 0 (c # cs) = drop 0 (c # cs)" by simp
    then show ?thesis by blast
  qed
qed

lemma space_len_take: "space_len s = 0 \<Longrightarrow> space_len (take n s) = 0"
proof (cases s rule: space_len.cases)
  case (1 a b c cs)
  assume z: "space_len s = 0"
  consider "n = 0" | "n = 1" | "n = 2" | m where "n = Suc (Suc (Suc m))"
    by (metis One_nat_def Suc_1 not0_implies_Suc)
  then show ?thesis
  proof cases
    case 4
    with 1 z show ?thesis by simp
  qed (use 1 z in \<open>simp_all split: if_splits\<close>)
next
  case (2 a b)
  assume z: "space_len s = 0"
  consider "n = 0" | "n = 1" | m where "n = Suc (Suc m)"
    by (metis One_nat_def not0_implies_Suc)
  then show ?thesis
    by cases (use 2 z in \<open>simp_all split: if_splits\<close>)
next
  case (3 a)
  assume z: "space_len s = 0"
  with 3 show ?thesis by (cases n) simp_all
next
  case 4
  then show ?thesis by simp
qed

lemma rev_drop_rev: "rev (drop k (rev x)) = take (length x - k) x"
  by (simp add: rev_drop)

lemma trim_sublist: "\<exists>m n. trim s = take n (drop m s)"
proof -
  obtain m where a: "drop_spaces space_len 0 s = drop m s"
    using drop_spaces_suffix by blast
  obtain k where b: "drop_spaces space_len_back 0 (rev (drop m s)) = drop k (rev (drop m s))"
    using drop_spaces_suffix by blast
  have "trim s = take (length (drop m s) - k) (drop m s)"
    by (simp only: trim_def a b rev_drop_rev)
  then show ?thesis by blast
qed

lemma trim_ends: "space_len (trim s) = 0 \<and> space_len_back (rev (trim s)) = 0"
proof -
  obtain k where b: "drop_spaces space_len_back 0 (rev (drop_spaces space_len 0 s))
                     = drop k (rev (drop_spaces space_len 0 s))"
    using drop_spaces_suffix by blast
  have h: "space_len (drop_spaces space_len 0 s) = 0" by (rule drop_spaces_head) simp
  have "trim s = take (length (drop_spaces space_len 0 s) - k) (drop_spaces space_len 0 s)"
    by (simp only: trim_def b rev_drop_rev)
  then have "space_len (trim s) = 0" using space_len_take [OF h] by simp
  moreover have "space_len_back (rev (trim s)) = 0"
    by (simp add: trim_def drop_spaces_head)
  ultimately show ?thesis by simp
qed

lemma space_len_is_space: "is_space c \<Longrightarrow> 0 < space_len (c # cs)"
  by (cases "c # cs" rule: space_len.cases) simp_all

text \<open>What \<^verbatim>\<open>replace(/\s+/g, ' ')\<close> leaves: of the white space of one byte only spaces, and
  no two of them in a row.\<close>

lemma collapse_from_spaces:
  "c \<in> set (collapse_from in_run k s) \<Longrightarrow> is_space c \<Longrightarrow> c = CHR '' ''"
proof (induction in_run k s rule: collapse_from.induct)
  case (1 in_run k)
  then show ?case by simp
next
  case (2 in_run k c' cs)
  then show ?case by simp
next
  case (3 in_run c' cs)
  show ?case
  proof (cases "0 < space_len (c' # cs)")
    case True
    with 3 show ?thesis by (auto split: if_splits)
  next
    case False
    then have "\<not> is_space c'" using space_len_is_space [of c' cs] by auto
    with False 3 show ?thesis by auto
  qed
qed

lemma contains_iff: "contains s p \<longleftrightarrow> (\<exists>a b. s = a @ p @ b)"
proof (induction s)
  case Nil
  then show ?case by auto
next
  case (Cons c cs)
  have sw: "startsWith (c # cs) p \<longleftrightarrow> (\<exists>b. c # cs = p @ b)"
    unfolding startsWith_def by (metis append_eq_conv_conj)
  show ?case
  proof
    assume "contains (c # cs) p"
    then consider "startsWith (c # cs) p" | "contains cs p" by auto
    then show "\<exists>a b. c # cs = a @ p @ b"
    proof cases
      case 1
      with sw obtain b where "c # cs = [] @ p @ b" by auto
      then show ?thesis by blast
    next
      case 2
      with Cons obtain a b where "cs = a @ p @ b" by blast
      then have "c # cs = (c # a) @ p @ b" by simp
      then show ?thesis by blast
    qed
  next
    assume "\<exists>a b. c # cs = a @ p @ b"
    then obtain a b where ab: "c # cs = a @ p @ b" by blast
    show "contains (c # cs) p"
    proof (cases a)
      case Nil
      with ab have "\<exists>b. c # cs = p @ b" by auto
      with sw have "startsWith (c # cs) p" by simp
      then show ?thesis by simp
    next
      case (Cons x a')
      with ab have "cs = a' @ p @ b" by simp
      with Cons.IH show ?thesis by auto
    qed
  qed
qed

lemma contains_sublist: "contains (take n (drop m s)) p \<Longrightarrow> contains s p"
proof -
  assume "contains (take n (drop m s)) p"
  then obtain a b where "take n (drop m s) = a @ p @ b" using contains_iff by blast
  then have "s = (take m s @ a) @ p @ (b @ drop n (drop m s))"
    by (metis append.assoc append_take_drop_id)
  then show ?thesis using contains_iff by blast
qed

lemma collapse_from_single:
  "\<not> contains (collapse_from in_run k s) ''  ''
   \<and> (in_run \<longrightarrow> \<not> startsWith (collapse_from in_run k s) '' '')"
proof (induction in_run k s rule: collapse_from.induct)
  case (1 in_run k)
  then show ?case by (simp add: startsWith_def)
next
  case (2 in_run k c cs)
  then show ?case by simp
next
  case (3 in_run c cs)
  show ?case
  proof (cases "0 < space_len (c # cs)")
    case True
    with 3 have ih: "\<not> contains (collapse_from True (space_len (c # cs) - 1) cs) ''  ''"
      "\<not> startsWith (collapse_from True (space_len (c # cs) - 1) cs) '' ''"
      by simp_all
    from ih(2) have "\<not> startsWith (CHR '' '' # collapse_from True (space_len (c # cs) - 1) cs) ''  ''"
      by (cases "collapse_from True (space_len (c # cs) - 1) cs") (simp_all add: startsWith_def)
    with True ih show ?thesis by simp
  next
    case False
    then have ns: "c \<noteq> CHR '' ''" using space_len_is_space [of c cs] by (auto simp: is_space_def)
    from False 3 have ih: "\<not> contains (collapse_from False 0 cs) ''  ''" by simp
    from ns have "\<not> startsWith (c # collapse_from False 0 cs) ''  ''"
      "\<not> startsWith (c # collapse_from False 0 cs) '' ''"
      by (simp_all add: startsWith_def)
    with False ih show ?thesis by simp
  qed
qed

lemma collapse_head:
  "collapse_from False 0 cs = []
   \<or> (\<exists>t. collapse_from False 0 cs = CHR '' '' # t)
   \<or> (\<exists>x rest. cs = x # rest \<and> space_len cs = 0
         \<and> collapse_from False 0 cs = x # collapse_from False 0 rest)"
  by (cases cs) simp_all

lemma not_wide_space: "\<not> is_space2 a (CHR '' '')" "\<not> is_space3 a (CHR '' '') c"
  "\<not> is_space3 a b (CHR '' '')"
  by (simp_all add: is_space2_def is_space3_def)

lemma space_len_cases:
  "space_len (a # s) = 0 \<Longrightarrow> \<not> is_space a"
  "space_len (a # b # s) = 0 \<Longrightarrow> \<not> is_space2 a b"
  "space_len (a # b # c # s) = 0 \<Longrightarrow> \<not> is_space3 a b c"
  by (cases s; cases "tl s"; simp split: if_splits)+

lemma space_len_short: "\<not> is_space a \<Longrightarrow> space_len [a] = 0"
  "\<not> is_space a \<Longrightarrow> \<not> is_space2 a b \<Longrightarrow> space_len [a, b] = 0"
  "\<not> is_space a \<Longrightarrow> \<not> is_space2 a b \<Longrightarrow> \<not> is_space3 a b c \<Longrightarrow> space_len (a # b # c # s) = 0"
  by simp_all

text \<open>A character that is copied is not the beginning of white space in the result
  either.\<close>

lemma collapse_copy:
  assumes "space_len (c # cs) = 0"
  shows "space_len (c # collapse_from False 0 cs) = 0"
proof -
  note a = space_len_cases(1) [OF assms]
  from collapse_head [of cs] consider
      "collapse_from False 0 cs = []"
    | t where "collapse_from False 0 cs = CHR '' '' # t"
    | x rest where "cs = x # rest" "space_len cs = 0"
        "collapse_from False 0 cs = x # collapse_from False 0 rest"
    by blast
  then show ?thesis
  proof cases
    case 1
    with a show ?thesis by simp
  next
    case 2
    with a show ?thesis by (cases t) (simp_all add: not_wide_space)
  next
    case 3
    from assms 3(1) have b: "\<not> is_space2 c x" using space_len_cases(2) by blast
    from collapse_head [of rest] consider
        "collapse_from False 0 rest = []"
      | t where "collapse_from False 0 rest = CHR '' '' # t"
      | y rest' where "rest = y # rest'" "space_len rest = 0"
          "collapse_from False 0 rest = y # collapse_from False 0 rest'"
      by blast
    then show ?thesis
    proof cases
      case 1
      with 3 a b show ?thesis by simp
    next
      case 2
      with 3 a b show ?thesis by (simp add: not_wide_space)
    next
      case inner: 3
      from assms 3(1) inner(1) have "\<not> is_space3 c x y" using space_len_cases(3) by blast
      with 3 inner a b show ?thesis by simp
    qed
  qed
qed

lemma collapse_from_narrow: "space_len (drop n (collapse_from in_run k s)) \<le> 1"
proof (induction in_run k s arbitrary: n rule: collapse_from.induct)
  case (1 in_run k)
  then show ?case by simp
next
  case (2 in_run k c cs)
  then show ?case by simp
next
  case (3 in_run c cs)
  show ?case
  proof (cases "0 < space_len (c # cs)")
    case True
    show ?thesis
    proof (cases "in_run \<or> 0 < n")
      case True
      with \<open>0 < space_len (c # cs)\<close> 3(1) [of "n"] 3(1) [of "n - 1"] show ?thesis
        by (cases n) auto
    next
      case False
      then have n: "n = 0" and r: "\<not> in_run" by simp_all
      have "space_len (CHR '' '' # t) = 1" for t
        by (cases "CHR '' '' # t" rule: space_len.cases) (simp_all add: is_space_def)
      with True n r show ?thesis by simp
    qed
  next
    case False
    then have z: "space_len (c # cs) = 0" by simp
    show ?thesis
    proof (cases n)
      case 0
      with z collapse_copy [OF z] show ?thesis by simp
    next
      case (Suc m)
      with z 3(2) [of m] show ?thesis by simp
    qed
  qed
qed

lemma space_len_take_le: "space_len s \<le> 1 \<Longrightarrow> space_len (take n s) \<le> 1"
proof (cases "space_len s = 0")
  case True
  then show ?thesis using space_len_take [of s n] by simp
next
  case False
  assume "space_len s \<le> 1"
  with False have one: "space_len s = 1" by simp
  then obtain a t where s: "s = a # t" by (cases s) auto
  with one have "is_space a"
    by (cases s rule: space_len.cases) (auto split: if_splits)
  then have "space_len (a # u) = 1" for u
    by (cases "a # u" rule: space_len.cases) simp_all
  with s show ?thesis by (cases n) simp_all
qed

lemma sublist_narrow:
  assumes "\<And>n. space_len (drop n s) \<le> 1"
  shows "space_len (drop k (take j (drop m s))) \<le> 1"
proof -
  have "drop k (take j (drop m s)) = take (j - k) (drop (k + m) s)"
    by (simp add: drop_take add.commute)
  then show ?thesis using space_len_take_le [OF assms [of "k + m"]] by simp
qed

text \<open>The white space that line 86 leaves in a text.\<close>

lemma normal_form_spaces:
  "space_len (trim (collapse_ws s)) = 0
   \<and> space_len_back (rev (trim (collapse_ws s))) = 0
   \<and> (\<forall>n. space_len (drop n (trim (collapse_ws s))) \<le> 1)
   \<and> (\<forall>c \<in> set (trim (collapse_ws s)). is_space c \<longrightarrow> c = CHR '' '')
   \<and> \<not> contains (trim (collapse_ws s)) ''  ''"
proof -
  obtain m n where t: "trim (collapse_ws s) = take n (drop m (collapse_ws s))"
    using trim_sublist by blast
  have "set (trim (collapse_ws s)) \<subseteq> set (collapse_ws s)"
    unfolding t by (meson set_take_subset set_drop_subset subset_trans)
  then have a: "\<forall>c \<in> set (trim (collapse_ws s)). is_space c \<longrightarrow> c = CHR '' ''"
    using collapse_from_spaces unfolding collapse_ws_def by blast
  have b: "\<not> contains (trim (collapse_ws s)) ''  ''"
    unfolding t using contains_sublist collapse_from_single unfolding collapse_ws_def by blast
  have c: "space_len (drop k (trim (collapse_ws s))) \<le> 1" for k
  proof -
    have "space_len (drop k (take n (drop m (collapse_ws s)))) \<le> 1"
      unfolding collapse_ws_def by (rule sublist_narrow) (rule collapse_from_narrow)
    then show ?thesis by (simp only: t)
  qed
  from a b c trim_ends show ?thesis by blast
qed

subsection \<open>The search index\<close>

lemma push_functions_eq:
  "push_functions funcs parts =
     (if defined_entries funcs then Inr (parts @ concat (map function_parts funcs))
      else Inl TypeError)"
proof (induction funcs arbitrary: parts)
  case Nil
  then show ?case by (simp add: defined_entries_def)
next
  case (Cons f funcs)
  obtain funcName funcDef where f: "f = (funcName, funcDef)" by (cases f)
  have split: "defined_entries (f # funcs) = (funcDef \<noteq> JNull \<and> defined_entries funcs)"
    using f by (simp add: defined_entries_def)
  have parts: "function_parts (funcName, funcDef)
               = Some (JStr funcName)
                 # (if truthy_opt (prop_of funcDef ''description'')
                    then [prop_of funcDef ''description''] else [])"
    by (simp add: function_parts_def)
  show ?case
    unfolding split using Cons.IH f parts by (simp add: get_prop_def)
qed

lemma search_index_parts_eq:
  "search_index_parts pkgName descr kw functionsData =
     (if defined_entries (manifest_entries functionsData)
      then Inr (index_parts pkgName descr (if truthy_opt kw then [kw] else []) functionsData)
      else Inl TypeError)"
  by (cases "truthy functionsData")
     (simp_all add: search_index_parts_def object_entries_truthy push_functions_eq index_parts_def
        manifest_entries_def defined_entries_def)

lemma build_search_index_eq:
  "build_search_index pkgName descr kw functionsData =
     (if defined_entries (manifest_entries functionsData)
         \<and> list_all joinable
              (index_parts pkgName descr (if truthy_opt kw then [kw] else []) functionsData)
      then Inr (index_of_parts pkgName descr (if truthy_opt kw then [kw] else []) functionsData)
      else Inl TypeError)"
  by (simp add: build_search_index_def search_index_parts_eq js_join_def index_of_parts_def)

lemma build_search_index_spaces:
  assumes "build_search_index pkgName descr kw functionsData = Inr idx"
  shows "space_len idx = 0 \<and> space_len_back (rev idx) = 0
         \<and> (\<forall>n. space_len (drop n idx) \<le> 1)
         \<and> (\<forall>c \<in> set idx. is_space c \<longrightarrow> c = CHR '' '') \<and> \<not> contains idx ''  ''"
proof -
  from assms obtain joined where "idx = trim (collapse_ws joined)"
    by (auto simp: build_search_index_def split: sum.splits)
  then show ?thesis using normal_form_spaces [of joined] by simp
qed

lemma build_artifact_index:
  assumes "build_artifact parse pkgName pkgData version versionData readmeContent projectConfig
             functionsData docsFound = Inr (doc, meta)"
  shows "build_search_index pkgName (description pkgData) (prop_of projectConfig ''keywords'')
           functionsData = Inr (m_searchIndex meta)"
proof -
  from assms have nn: "projectConfig \<noteq> JNull"
    by (auto simp: build_artifact_def get_prop_def split: if_splits)
  from assms show ?thesis
    unfolding build_artifact_def Let_def get_prop_defined [OF nn]
    by (auto split: sum.splits if_splits)
qed

text \<open>
  Claim C1, as amended. The search index is built from the package name, the package
  description, the keywords value as the descriptor holds it (if it is truthy; it is not
  normalised first) and, if the manifest is truthy, for each function in the order in which
  \<^verbatim>\<open>Object.entries\<close> enumerates the manifest, its name and its description (if truthy).
  These parts are joined by single spaces; then every run of white space is replaced by a
  space and the ends are trimmed. So the index neither begins nor ends with white space,
  the only white space in it are spaces, and no two of them stand in a row. The script
  throws instead if a function definition is \<^verbatim>\<open>null\<close> or a part does not convert to a
  string. The search index of the emitted metadata is this string for the descriptor's own
  \<^verbatim>\<open>keywords\<close> property.
\<close>

theorem search_index_raw_keywords:
  "build_search_index pkgName descr kw functionsData =
     (if defined_entries (manifest_entries functionsData)
         \<and> list_all joinable
              (index_parts pkgName descr (if truthy_opt kw then [kw] else []) functionsData)
      then Inr (index_of_parts pkgName descr (if truthy_opt kw then [kw] else []) functionsData)
      else Inl TypeError)
   \<and> (build_search_index pkgName descr kw functionsData = Inr idx \<longrightarrow>
        space_len idx = 0 \<and> space_len_back (rev idx) = 0
        \<and> (\<forall>n. space_len (drop n idx) \<le> 1)
        \<and> (\<forall>c \<in> set idx. is_space c \<longrightarrow> c = CHR '' '') \<and> \<not> contains idx ''  '')
   \<and> (build_artifact parse pkgName pkgData version versionData readmeContent projectConfig
         functionsData docsFound = Inr (doc, meta) \<longrightarrow>
       build_search_index pkgName (description pkgData) (prop_of projectConfig ''keywords'')
         functionsData = Inr (m_searchIndex meta))"
proof (intro conjI impI)
  show "build_search_index pkgName descr kw functionsData =
     (if defined_entries (manifest_entries functionsData)
         \<and> list_all joinable
              (index_parts pkgName descr (if truthy_opt kw then [kw] else []) functionsData)
      then Inr (index_of_parts pkgName descr (if truthy_opt kw then [kw] else []) functionsData)
      else Inl TypeError)"
    by (rule build_search_index_eq)
next
  assume i: "build_search_index pkgName descr kw functionsData = Inr idx"
  note s = build_search_index_spaces [OF i]
  from s show "space_len idx = 0" by blast
  from s show "space_len_back (rev idx) = 0" by blast
  from s show "\<forall>n. space_len (drop n idx) \<le> 1" by blast
  from s show "\<forall>c \<in> set idx. is_space c \<longrightarrow> c = CHR '' ''" by blast
  from s show "\<not> contains idx ''  ''" by blast
next
  assume "build_artifact parse pkgName pkgData version versionData readmeContent projectConfig
         functionsData docsFound = Inr (doc, meta)"
  then show "build_search_index pkgName (description pkgData) (prop_of projectConfig ''keywords'')
         functionsData = Inr (m_searchIndex meta)"
    by (rule build_artifact_index)
qed

lemma example_artifact:
  "build_artifact JSON_parse ''prime'' example_pkg ''0.1.0'' example_version [] example_config
     example_manifest False = Inr (example_page, example_meta)"
  by code_simp

lemma example_manifest_defined: "manifest_defined (manifest_entries example_manifest)"
  by (simp add: example_manifest_def manifest_entries_def manifest_defined_def
      described_entries_def entries_of_def arguments_of_def describable_def joinable_def)

lemma manifest_defined_entries: "manifest_defined funcs \<Longrightarrow> defined_entries funcs"
  by (induction funcs) (simp_all add: manifest_defined_def defined_entries_def describable_def)

theorem search_index_raw_keywords_witness:
  "build_search_index ''prime'' example_description example_keywords example_manifest
     = Inr example_index
   \<and> space_len example_index = 0 \<and> space_len_back (rev example_index) = 0
   \<and> \<not> contains example_index ''  ''
   \<and> build_search_index ''prime'' (description example_pkg)
       (prop_of example_config ''keywords'') example_manifest = Inr (m_searchIndex example_meta)"
proof -
  have d: "defined_entries (manifest_entries example_manifest)"
    by (rule manifest_defined_entries [OF example_manifest_defined])
  have j: "list_all joinable
             (index_parts ''prime'' example_description
                (if truthy_opt example_keywords then [example_keywords] else []) example_manifest)"
    by code_simp
  have v: "index_of_parts ''prime'' example_description
             (if truthy_opt example_keywords then [example_keywords] else []) example_manifest
           = example_index"
    by code_simp
  note inst = search_index_raw_keywords [where functionsData = example_manifest
      and pkgName = "''prime''" and descr = example_description and kw = example_keywords
      and parse = JSON_parse and pkgData = example_pkg and version = "''0.1.0''"
      and versionData = example_version and readmeContent = "[]" and projectConfig = example_config
      and docsFound = False and doc = example_page and meta = example_meta and idx = example_index]
  from inst d j v
  have a: "build_search_index ''prime'' example_description example_keywords example_manifest
           = Inr example_index"
    by simp
  with inst have "space_len example_index = 0 \<and> space_len_back (rev example_index) = 0
                  \<and> \<not> contains example_index ''  ''"
    by blast
  moreover from inst example_artifact
  have "build_search_index ''prime'' (description example_pkg)
          (prop_of example_config ''keywords'') example_manifest = Inr (m_searchIndex example_meta)"
    by blast
  ultimately show ?thesis using a by simp
qed

text \<open>
  Claim C1, as the specification states it, fails on the package \<^verbatim>\<open>prime\<close> of the
  repository: its descriptor holds the keywords as the text \<^verbatim>\<open>['prime numbers']\<close>, which
  goes into the search index as it is, where the normalised keywords are
  \<^verbatim>\<open>prime numbers\<close>.
\<close>

theorem search_index_spec_counterexample:
  "build_search_index ''prime'' example_description example_keywords example_manifest
     \<noteq> Inr (search_index_as_specified JSON_parse ''prime'' example_description example_keywords
              example_manifest)
   \<and> build_search_index ''prime'' example_description example_keywords example_manifest
     = Inr ''prime A small library for prime number utilities. ['prime numbers'] ISPRIME Checks whether the provided value is a prime. PRIMEVECTOR Generates a vector of prime numbers.''
   \<and> normalize_keywords JSON_parse example_keywords = Inr (JStr ''prime numbers'')"
proof -
  have a: "build_search_index ''prime'' example_description example_keywords example_manifest
     = Inr ''prime A small library for prime number utilities. ['prime numbers'] ISPRIME Checks whether the provided value is a prime. PRIMEVECTOR Generates a vector of prime numbers.''"
    by code_simp
  have b: "search_index_as_specified JSON_parse ''prime'' example_description example_keywords
             example_manifest
     = ''prime A small library for prime number utilities. prime numbers ISPRIME Checks whether the provided value is a prime. PRIMEVECTOR Generates a vector of prime numbers.''"
    by code_simp
  have c: "normalize_keywords JSON_parse example_keywords = Inr (JStr ''prime numbers'')"
    by code_simp
  show ?thesis unfolding a b c by simp
qed

lemma normalize_keywords_total:
  assumes "joinable raw"
  shows "\<exists>kw. normalize_keywords parse raw = Inr kw \<and> stringable kw"
proof (cases "truthy_opt raw")
  case False
  then show ?thesis by (auto simp: normalize_keywords_def startsWith_def)
next
  case True
  then obtain v where raw: "raw = Some v" and t: "truthy v"
    by (cases raw) (simp_all add: truthy_opt_simps)
  from assms raw have s: "stringable v" by (simp add: joinable_def)
  show ?thesis
  proof (cases v)
    case (JStr x)
    show ?thesis
    proof (cases "parse (replace_char (CHR 0x27) [CHR 0x22] x)")
      case None
      with raw t JStr show ?thesis by (simp add: normalize_keywords_def truthy_opt_simps)
    next
      case (Some p)
      with raw t JStr show ?thesis
        by (cases p) (auto simp: normalize_keywords_def truthy_opt_simps split: sum.splits)
    qed
  next
    case (JArr xs)
    with raw t s show ?thesis
      by (simp add: normalize_keywords_def truthy_opt_simps array_join_def)
  qed (use raw t s in \<open>simp_all add: normalize_keywords_def truthy_opt_simps\<close>)
qed

lemma optional_line_total: "joinable v \<Longrightarrow> \<exists>t. optional_line label v = Inr t"
  by (cases v) (simp_all add: optional_line_def truthy_opt_simps to_string_opt_def to_string_def
      joinable_def)

lemma frontmatter_total:
  assumes "joinable (description pkgData)" and "stringable (cfg_keywords projectConfig)"
    and "joinable (cfg_homepage projectConfig)" and "joinable (cfg_license projectConfig)"
  shows "\<exists>front. frontmatter name version pkgData versionData projectConfig searchIndex isLatest
                  = Inr front"
proof -
  from assms(1) obtain d where d: "to_string_opt (description pkgData) = Inr d"
    by (cases "description pkgData") (simp_all add: to_string_opt_def to_string_def joinable_def)
  from assms(2) obtain k where k: "optional_line ''keywords: '' (Some (cfg_keywords projectConfig)) = Inr k"
    using optional_line_total [of "Some (cfg_keywords projectConfig)"] by (auto simp: joinable_def)
  from assms(3) obtain h where h: "optional_line ''homepage: '' (cfg_homepage projectConfig) = Inr h"
    using optional_line_total by blast
  from assms(4) obtain l where l: "optional_line ''license: '' (cfg_license projectConfig) = Inr l"
    using optional_line_total by blast
  show ?thesis by (simp add: frontmatter_def d k h l)
qed

lemma generateApiDocs_total:
  "manifest_defined (manifest_entries functionsData) \<Longrightarrow> \<exists>api. generateApiDocs functionsData = Inr api"
  by (cases "truthy functionsData") (simp_all add: generateApiDocs_eq manifest_entries_def)

lemma assignable_defined: "assignable v \<Longrightarrow> v \<noteq> JNull"
  by (cases v) simp_all

lemma function_parts_joinable:
  "manifest_defined funcs \<Longrightarrow> list_all joinable (concat (map function_parts funcs))"
  by (induction funcs)
     (simp_all add: manifest_defined_def function_parts_def describable_def joinable_def)

text \<open>A version is processed to the end whenever the descriptor is an object or an array,
  the manifest has no \<^verbatim>\<open>null\<close> definition and all that is converted to a string converts.\<close>

lemma build_artifact_total:
  assumes "assignable projectConfig" and "manifest_defined (manifest_entries functionsData)"
    and "convertible pkgData projectConfig"
  shows "\<exists>doc meta. build_artifact parse pkgName pkgData version versionData readmeContent
           projectConfig functionsData docsFound = Inr (doc, meta)"
proof -
  from assms(3) have jd: "joinable (description pkgData)"
    and jk: "joinable (prop_of projectConfig ''keywords'')"
    and jh: "joinable (prop_of projectConfig ''homepage'')"
    and jl: "joinable (prop_of projectConfig ''license'')"
    by (simp_all add: convertible_def)
  obtain api where api: "generateApiDocs functionsData = Inr api"
    using generateApiDocs_total [OF assms(2)] by blast
  have "list_all joinable
          (index_parts pkgName (description pkgData)
             (if truthy_opt (prop_of projectConfig ''keywords'')
              then [prop_of projectConfig ''keywords''] else []) functionsData)"
    using jd jk function_parts_joinable [OF assms(2)]
    by (simp add: index_parts_def joinable_def)
  then obtain idx where idx: "build_search_index pkgName (description pkgData)
               (prop_of projectConfig ''keywords'') functionsData = Inr idx"
    using manifest_defined_entries [OF assms(2)] by (simp add: build_search_index_eq)
  obtain kw where kw: "normalize_keywords parse (prop_of projectConfig ''keywords'') = Inr kw"
    and sk: "stringable kw"
    using normalize_keywords_total [OF jk] by blast
  have "\<exists>front. frontmatter pkgName version pkgData versionData
       \<lparr> cfg_keywords = kw, cfg_homepage = prop_of projectConfig ''homepage'',
         cfg_license = prop_of projectConfig ''license'' \<rparr> idx
       (latest pkgData = Some (JStr version)) = Inr front"
    by (rule frontmatter_total) (simp_all add: jd sk jh jl)
  then obtain front where front:
    "frontmatter pkgName version pkgData versionData
       \<lparr> cfg_keywords = kw, cfg_homepage = prop_of projectConfig ''homepage'',
         cfg_license = prop_of projectConfig ''license'' \<rparr> idx
       (latest pkgData = Some (JStr version)) = Inr front"
    by blast
  show ?thesis
    using assms(1) api idx kw front
    by (simp add: build_artifact_def get_prop_defined [OF assignable_defined [OF assms(1)]]
        synthesizeReadme_def existing_readme_def Let_def)
qed

text \<open>
  Claim C8. The search index is a function of the package name, the package description,
  the descriptor's keywords value and the function manifest alone: two runs that agree on
  these four, whatever else differs (version, dependencies, readme, the rest of the
  descriptor, the docs folder, the parser), emit the same search index.
\<close>

theorem search_index_deterministic:
  assumes "build_artifact parse1 pkgName pkgData1 version1 versionData1 readme1 projectConfig1
             functionsData docsFound1 = Inr (doc1, meta1)"
    and "build_artifact parse2 pkgName pkgData2 version2 versionData2 readme2 projectConfig2
             functionsData docsFound2 = Inr (doc2, meta2)"
    and "description pkgData1 = description pkgData2"
    and "prop_of projectConfig1 ''keywords'' = prop_of projectConfig2 ''keywords''"
  shows "m_searchIndex meta1 = m_searchIndex meta2"
  using build_artifact_index [OF assms(1)] build_artifact_index [OF assms(2)] assms(3,4)
  by simp

theorem search_index_deterministic_witness:
  "\<exists>doc meta.
     build_artifact JSON_parse ''prime'' (example_pkg \<lparr> latest := Some (JStr ''0.1.0'') \<rparr>)
       ''0.2.0'' \<lparr> path = ''p.gspkg'', dependencies = [''error>=0.2.0''] \<rparr> ''# prime''
       (JObj [(''keywords'', JStr ''['prime numbers']'')]) example_manifest True = Inr (doc, meta)
     \<and> m_searchIndex meta = example_index"
proof -
  have "\<exists>doc meta.
    build_artifact JSON_parse ''prime'' (example_pkg \<lparr> latest := Some (JStr ''0.1.0'') \<rparr>)
       ''0.2.0'' \<lparr> path = ''p.gspkg'', dependencies = [''error>=0.2.0''] \<rparr> ''# prime''
       (JObj [(''keywords'', JStr ''['prime numbers']'')]) example_manifest True = Inr (doc, meta)"
    by (rule build_artifact_total)
       (simp_all add: example_manifest_defined convertible_def joinable_def example_pkg_def
          example_description_def)
  then obtain doc meta where r:
    "build_artifact JSON_parse ''prime'' (example_pkg \<lparr> latest := Some (JStr ''0.1.0'') \<rparr>)
       ''0.2.0'' \<lparr> path = ''p.gspkg'', dependencies = [''error>=0.2.0''] \<rparr> ''# prime''
       (JObj [(''keywords'', JStr ''['prime numbers']'')]) example_manifest True = Inr (doc, meta)"
    by blast
  have "m_searchIndex meta = m_searchIndex example_meta"
    using search_index_deterministic [OF r example_artifact]
    by (simp add: example_config_def)
  then show ?thesis using r by (simp add: example_meta_def)
qed

subsection \<open>Normalising the keywords\<close>

lemma startsWith_bracket: "startsWith s ''['' \<longleftrightarrow> (\<exists>t. s = CHR ''['' # t)"
  by (cases s) (auto simp: startsWith_def)

lemma not_bracketed_empty: "\<not> bracketed []"
  by (simp add: bracketed_def startsWith_def)

lemma strings_stringable: "list_all is_string xs \<Longrightarrow> list_all stringable xs"
proof (induction xs)
  case Nil
  then show ?case by simp
next
  case (Cons x xs)
  then show ?case by (cases x) simp_all
qed

lemma normalize_keywords_plain_string:
  "\<not> bracketed s \<Longrightarrow> normalize_keywords parse (Some (JStr s)) = Inr (JStr s)"
  by (cases "s = []") (auto simp: normalize_keywords_def truthy_opt_def bracketed_def)

text \<open>The three ways a bracketed string is normalised.\<close>

lemma normalize_keywords_bracketed:
  assumes "bracketed s"
  shows "normalize_keywords parse (Some (JStr s)) =
           (case parse (sanitized s) of
              Some (JArr ys) \<Rightarrow>
                if list_all stringable ys then Inr (JStr (joined_keywords ys))
                else Inr (JStr (strip_brackets s))
            | Some other \<Rightarrow> Inr (JStr s)
            | None \<Rightarrow> Inr (JStr (strip_brackets s)))"
proof -
  from assms have ne: "s \<noteq> []" using not_bracketed_empty by auto
  show ?thesis
  proof (cases "parse (sanitized s)")
    case None
    with assms ne show ?thesis
      by (simp add: normalize_keywords_def truthy_opt_def bracketed_def sanitized_def)
  next
    case (Some v)
    with assms ne show ?thesis
      by (cases v)
         (simp_all add: normalize_keywords_def truthy_opt_def bracketed_def sanitized_def
            array_join_def joined_keywords_def)
  qed
qed

lemma normalize_keywords_string:
  "\<exists>t. normalize_keywords parse (Some (JStr s)) = Inr (JStr t)"
proof (cases "bracketed s")
  case False
  then show ?thesis by (simp add: normalize_keywords_plain_string)
next
  case True
  show ?thesis
    unfolding normalize_keywords_bracketed [OF True]
    by (auto split: option.splits json.splits)
qed

lemma normalize_keywords_array:
  "list_all stringable xs \<Longrightarrow>
   normalize_keywords parse (Some (JArr xs)) = Inr (JStr (joined_keywords xs))"
  by (simp add: normalize_keywords_def truthy_opt_def array_join_def joined_keywords_def)

lemma normalize_keywords_absent: "normalize_keywords parse None = Inr (JStr [])"
  by (simp add: normalize_keywords_def truthy_opt_def startsWith_def)

lemma join_strings_first:
  "startsWith (join_strings '', '' (x # ys)) ''['' \<Longrightarrow> startsWith x ''[''"
  by (cases ys; cases x) (auto simp: startsWith_def)

lemma joined_keywords_plain: "first_plain ys \<Longrightarrow> \<not> bracketed (joined_keywords ys)"
proof (cases ys)
  case Nil
  then show ?thesis by (simp add: joined_keywords_def not_bracketed_empty)
next
  case (Cons y ys')
  assume "first_plain ys"
  with Cons have "\<not> startsWith (js_join_elem y) ''[''" by simp
  with Cons show ?thesis
    using join_strings_first [of "js_join_elem y" "map js_join_elem ys'"]
    by (auto simp: joined_keywords_def bracketed_def)
qed

lemma split_on_nonempty: "split_on c s \<noteq> []"
  by (induction s) (auto split: list.splits)

lemma strip_brackets_plain:
  assumes "\<not> startsWith (first_token s) ''[''"
  shows "\<not> bracketed (strip_brackets s)"
proof -
  obtain w ws where w: "split_on (CHR '','') (slice_1_m1 s) = w # ws"
    using split_on_nonempty [of "CHR '',''" "slice_1_m1 s"]
    by (cases "split_on (CHR '','') (slice_1_m1 s)") auto
  then have f: "first_token s = strip_quotes (trim w)" by (simp add: first_token_def)
  have "strip_brackets s
        = join_strings '', '' (strip_quotes (trim w) # map (\<lambda>k. strip_quotes (trim k)) ws)"
    by (simp add: strip_brackets_def w)
  with assms f show ?thesis
    using join_strings_first [of "strip_quotes (trim w)" "map (\<lambda>k. strip_quotes (trim k)) ws"]
    by (auto simp: bracketed_def)
qed

lemma normalize_keywords_plain:
  assumes "plain_keywords parse K" and "normalize_keywords parse K = Inr (JStr s)"
  shows "\<not> bracketed s"
proof (cases K)
  case None
  with assms(2) show ?thesis by (simp add: normalize_keywords_absent not_bracketed_empty)
next
  case (Some v)
  show ?thesis
  proof (cases v)
    case (JStr t)
    show ?thesis
    proof (cases "bracketed t")
      case False
      with Some JStr assms(2) show ?thesis by (simp add: normalize_keywords_plain_string)
    next
      case True
      from assms(2) Some JStr
      have r: "(case parse (sanitized t) of
              Some (JArr ys) \<Rightarrow>
                if list_all stringable ys then Inr (JStr (joined_keywords ys))
                else Inr (JStr (strip_brackets t))
            | Some other \<Rightarrow> Inr (JStr t)
            | None \<Rightarrow> Inr (JStr (strip_brackets t))) = (Inr (JStr s) :: error + json)"
        using normalize_keywords_bracketed [OF True, of parse] by simp
      from assms(1) Some JStr True
      have p: "(case parse (sanitized t) of
           Some (JArr ys) \<Rightarrow>
             if list_all stringable ys then first_plain ys
             else \<not> startsWith (first_token t) ''[''
         | Some other \<Rightarrow> False
         | None \<Rightarrow> \<not> startsWith (first_token t) ''['')"
        by simp
      show ?thesis
      proof (cases "parse (sanitized t)")
        case None
        with r p show ?thesis using strip_brackets_plain by auto
      next
        case (Some u)
        with r p show ?thesis
          using strip_brackets_plain joined_keywords_plain
          by (cases u) (auto split: if_splits)
      qed
    qed
  next
    case (JArr xs)
    with Some assms(1) have fp: "first_plain xs" by simp
    show ?thesis
    proof (cases "list_all stringable xs")
      case True
      with Some JArr assms(2) have "s = joined_keywords xs"
        by (simp add: normalize_keywords_array)
      with fp show ?thesis by (simp add: joined_keywords_plain)
    next
      case False
      with Some JArr assms(2) show ?thesis
        by (simp add: normalize_keywords_def truthy_opt_def array_join_def)
    qed
  qed (use Some assms(1) in simp_all)
qed

text \<open>
  Claim C2, as amended. For every keyword representation (absent, a string, a list of
  strings) the result is a string: the empty string when the keywords are absent, the
  elements joined by a comma and a space for a list, the string itself when it is not
  bracketed, and for a bracketed string what the three branches of lines 94 to 104 give:
  the joined elements if it parses to an array, the string itself if it parses to
  something else, the keywords cut out by hand if it does not parse. Normalising the result
  again leaves it unchanged whenever it is not bracketed. It is not bracketed when the
  input is absent or a string that is not bracketed, when the first element of the list,
  or of the array that a bracketed string parses to, does not begin with \<^verbatim>\<open>[\<close>, and
  when the first keyword cut out of a bracketed string that does not parse does not begin
  with \<^verbatim>\<open>[\<close>. This holds for every behaviour of \<^verbatim>\<open>JSON.parse\<close>.
\<close>

theorem normalize_keywords_fixpoint:
  assumes "keyword_representation K"
  shows "\<exists>s. normalize_keywords parse K = Inr (JStr s)
          \<and> (\<not> bracketed s \<longrightarrow> normalize_keywords parse (Some (JStr s)) = Inr (JStr s))
          \<and> (plain_keywords parse K \<longrightarrow> \<not> bracketed s)
          \<and> (K = None \<longrightarrow> s = [])
          \<and> (\<forall>xs. K = Some (JArr xs) \<longrightarrow> s = joined_keywords xs)
          \<and> (\<forall>t. K = Some (JStr t) \<and> \<not> bracketed t \<longrightarrow> s = t)
          \<and> (\<forall>t. K = Some (JStr t) \<and> bracketed t \<longrightarrow>
                s = (case parse (sanitized t) of
                       Some (JArr ys) \<Rightarrow>
                         if list_all stringable ys then joined_keywords ys else strip_brackets t
                     | Some other \<Rightarrow> t
                     | None \<Rightarrow> strip_brackets t))"
proof -
  have "\<exists>s. normalize_keywords parse K = Inr (JStr s)"
  proof (cases K)
    case None
    then show ?thesis by (simp add: normalize_keywords_absent)
  next
    case (Some v)
    with assms show ?thesis
      by (cases v)
         (simp_all add: normalize_keywords_string normalize_keywords_array strings_stringable)
  qed
  then obtain s where s: "normalize_keywords parse K = Inr (JStr s)" ..
  have a: "s = []" if "K = None"
    using that s by (simp add: normalize_keywords_absent)
  have b: "s = joined_keywords xs" if "K = Some (JArr xs)" for xs
    using that s assms by (simp add: normalize_keywords_array strings_stringable)
  have c: "s = t" if "K = Some (JStr t)" "\<not> bracketed t" for t
    using that s by (simp add: normalize_keywords_plain_string)
  have d: "s = (case parse (sanitized t) of
                  Some (JArr ys) \<Rightarrow>
                    if list_all stringable ys then joined_keywords ys else strip_brackets t
                | Some other \<Rightarrow> t
                | None \<Rightarrow> strip_brackets t)"
    if "K = Some (JStr t)" "bracketed t" for t
    using that(1) s unfolding that(1) normalize_keywords_bracketed [OF that(2)]
    by (auto split: option.splits json.splits if_splits)
  from s a b c d show ?thesis
    using normalize_keywords_plain_string normalize_keywords_plain by blast
qed

theorem normalize_keywords_fixpoint_witness:
  "normalize_keywords JSON_parse (Some (JStr ''['a', 'b']'')) = Inr (JStr ''a, b'')
   \<and> \<not> bracketed ''a, b''
   \<and> normalize_keywords JSON_parse (Some (JStr ''a, b'')) = Inr (JStr ''a, b'')
   \<and> normalize_keywords JSON_parse (Some (JArr [JStr ''a'', JStr ''b''])) = Inr (JStr ''a, b'')
   \<and> normalize_keywords JSON_parse (Some (JStr ''[a, 'b']'')) = Inr (JStr ''a, b'')
   \<and> normalize_keywords JSON_parse None = Inr (JStr [])"
proof -
  have r1: "keyword_representation (Some (JStr ''['a', 'b']''))" by simp
  have b1: "bracketed ''['a', 'b']''" by code_simp
  have p1: "plain_keywords JSON_parse (Some (JStr ''['a', 'b']''))" by code_simp
  have v1: "(case JSON_parse (sanitized ''['a', 'b']'') of
               Some (JArr ys) \<Rightarrow>
                 if list_all stringable ys then joined_keywords ys else strip_brackets ''['a', 'b']''
             | Some other \<Rightarrow> ''['a', 'b']''
             | None \<Rightarrow> strip_brackets ''['a', 'b']'') = ''a, b''"
    by code_simp
  have r2: "keyword_representation (Some (JArr [JStr ''a'', JStr ''b'']))" by simp
  have v2: "joined_keywords [JStr ''a'', JStr ''b''] = ''a, b''" by code_simp
  have r3: "keyword_representation (Some (JStr ''[a, 'b']''))" by simp
  have b3: "bracketed ''[a, 'b']''" by code_simp
  have v3: "(case JSON_parse (sanitized ''[a, 'b']'') of
               Some (JArr ys) \<Rightarrow>
                 if list_all stringable ys then joined_keywords ys else strip_brackets ''[a, 'b']''
             | Some other \<Rightarrow> ''[a, 'b']''
             | None \<Rightarrow> strip_brackets ''[a, 'b']'') = ''a, b''"
    by code_simp
  have r4: "keyword_representation None" by simp
  from normalize_keywords_fixpoint [OF r1, of JSON_parse] b1 p1 v1
  have a: "normalize_keywords JSON_parse (Some (JStr ''['a', 'b']'')) = Inr (JStr ''a, b'')
           \<and> \<not> bracketed ''a, b''
           \<and> normalize_keywords JSON_parse (Some (JStr ''a, b'')) = Inr (JStr ''a, b'')"
    by auto
  from normalize_keywords_fixpoint [OF r2, of JSON_parse] v2
  have b: "normalize_keywords JSON_parse (Some (JArr [JStr ''a'', JStr ''b''])) = Inr (JStr ''a, b'')"
    by auto
  from normalize_keywords_fixpoint [OF r3, of JSON_parse] b3 v3
  have c: "normalize_keywords JSON_parse (Some (JStr ''[a, 'b']'')) = Inr (JStr ''a, b'')"
    by auto
  from normalize_keywords_fixpoint [OF r4, of JSON_parse]
  have d: "normalize_keywords JSON_parse None = Inr (JStr [])"
    by auto
  from a b c d show ?thesis by simp
qed

text \<open>
  Claim C2, as the specification states it, fails for the list of the single keyword
  \<^verbatim>\<open>[x]\<close>: its normal form is the bracketed string \<^verbatim>\<open>[x]\<close>, and normalising that
  gives \<^verbatim>\<open>x\<close>.
\<close>

theorem normalize_keywords_counterexample:
  "keyword_representation (Some (JArr [JStr ''[x]'']))
   \<and> normalize_keywords JSON_parse (Some (JArr [JStr ''[x]''])) = Inr (JStr ''[x]'')
   \<and> bracketed ''[x]''
   \<and> normalize_keywords JSON_parse (Some (JStr ''[x]'')) = Inr (JStr ''x'')
   \<and> normalize_keywords JSON_parse (Some (JStr ''[x]''))
     \<noteq> normalize_keywords JSON_parse (Some (JArr [JStr ''[x]'']))"
proof -
  have a: "normalize_keywords JSON_parse (Some (JArr [JStr ''[x]''])) = Inr (JStr ''[x]'')"
    by code_simp
  have b: "normalize_keywords JSON_parse (Some (JStr ''[x]'')) = Inr (JStr ''x'')"
    by code_simp
  have c: "bracketed ''[x]''" by code_simp
  show ?thesis unfolding a b using c by simp
qed

subsection \<open>Decoding\<close>

lemma well_formed_tail_seen: "seen \<le> fst (well_formed_tail k seen lo hi cs)"
proof (induction k seen lo hi cs rule: well_formed_tail.induct)
  case (3 k seen lo hi c cs)
  then show ?case by (auto intro: Suc_leD)
qed simp_all

lemma utf8_head_pos: "1 \<le> fst (utf8_head c cs)"
  using well_formed_tail_seen [of 1] by (simp add: utf8_head_def Let_def)

lemma toString_utf8_empty: "toString_utf8 s = [] \<longleftrightarrow> s = []"
proof (cases s)
  case Nil
  then show ?thesis by (simp add: toString_utf8_def)
next
  case (Cons c cs)
  obtain n ok where h: "utf8_head c cs = (n, ok)" by (cases "utf8_head c cs")
  with utf8_head_pos [of c cs] have "1 \<le> n" by simp
  then have "take n (c # cs) \<noteq> []" by (cases n) simp_all
  with Cons h show ?thesis by (simp add: toString_utf8_def replacement_def)
qed

lemma decode_from_valid: "valid_from k s \<Longrightarrow> decode_from k s = drop k s"
proof (induction k s rule: decode_from.induct)
  case (1 k)
  then show ?case by simp
next
  case (2 k c cs)
  then show ?case by simp
next
  case (3 c cs)
  obtain n ok where h: "utf8_head c cs = (n, ok)" by (cases "utf8_head c cs")
  with utf8_head_pos [of c cs] have n: "1 \<le> n" by simp
  from 3(2) h have ok: ok and v: "valid_from (n - 1) cs" by simp_all
  from 3(1) [OF h [symmetric] v] have "decode_from (n - 1) cs = drop (n - 1) cs" .
  moreover from n have "take n (c # cs) = c # take (n - 1) cs" by (cases n) simp_all
  ultimately show ?case using h ok by simp
qed

text \<open>Decoding leaves well-formed UTF-8 as it is.\<close>

lemma toString_utf8_valid: "valid_utf8 s \<Longrightarrow> toString_utf8 s = s"
  using decode_from_valid [of 0 s] by (simp add: valid_utf8_def toString_utf8_def)

subsection \<open>The emitted document\<close>

lemma read_readme_empty:
  "read_readme zipEntries = [] \<longleftrightarrow>
     (case find_entry ''readme.md'' zipEntries of None \<Rightarrow> True | Some e \<Rightarrow> entry_data e = [])"
  by (simp add: read_readme_def toString_utf8_empty split: option.splits)

lemma build_artifact_doc:
  assumes "build_artifact parse pkgName pkgData version versionData readmeContent projectConfig
             functionsData docsFound = Inr (doc, meta)"
  shows "(if readmeContent = []
          then synthesizeReadme pkgName version pkgData versionData functionsData
                 (meta_config meta) (m_searchIndex meta) (m_latest meta)
          else existing_readme pkgName version pkgData versionData functionsData
                 (meta_config meta) (m_searchIndex meta) (m_latest meta) readmeContent) = Inr doc
         \<and> m_name meta = pkgName \<and> m_version meta = version \<and> m_hasDocs meta = docsFound"
proof -
  from assms have nn: "projectConfig \<noteq> JNull"
    by (auto simp: build_artifact_def get_prop_def split: if_splits)
  from assms show ?thesis
    unfolding build_artifact_def Let_def get_prop_defined [OF nn] meta_config_def
    by (auto split: sum.splits if_splits)
qed

text \<open>
  Claim C3, as amended. The Doc Synthesizer runs if and only if the recovered readme text
  is empty, that is, when the archive has no readme entry or has one with no content. When
  the readme entry has content, \<^verbatim>\<open>index.md\<close> is the front matter, then the content of that
  entry decoded as UTF-8, which is the content itself when that is well-formed UTF-8, then,
  only if the function manifest is truthy, a blank line and the API reference. Otherwise
  \<^verbatim>\<open>index.md\<close> is the result of \<^verbatim>\<open>synthesizeReadme\<close>: the front matter, the API
  reference, a blank line and the fixed callout.
\<close>

theorem document_shape:
  assumes "build_artifact parse pkgName pkgData version versionData (read_readme zipEntries)
             projectConfig functionsData docsFound = Inr (doc, meta)"
  shows "\<exists>front api.
           meta_frontmatter pkgData versionData meta = Inr front
           \<and> generateApiDocs functionsData = Inr api
           \<and> (case find_entry ''readme.md'' zipEntries of
                None \<Rightarrow> doc = front @ api @ newline @ newline @ callout
              | Some e \<Rightarrow>
                  if entry_data e = [] then doc = front @ api @ newline @ newline @ callout
                  else doc = front @ toString_utf8 (entry_data e)
                             @ (if truthy functionsData then newline @ newline @ api else [])
                       \<and> (valid_utf8 (entry_data e) \<longrightarrow> toString_utf8 (entry_data e) = entry_data e))
           \<and> (read_readme zipEntries = [] \<longrightarrow>
                synthesizeReadme pkgName version pkgData versionData functionsData
                  (meta_config meta) (m_searchIndex meta) (m_latest meta) = Inr doc)"
proof -
  note d = build_artifact_doc [OF assms]
  show ?thesis
  proof (cases "read_readme zipEntries = []")
    case True
    with d have s: "synthesizeReadme pkgName version pkgData versionData functionsData
                      (meta_config meta) (m_searchIndex meta) (m_latest meta) = Inr doc"
      by simp
    then obtain front api where "meta_frontmatter pkgData versionData meta = Inr front"
      and "generateApiDocs functionsData = Inr api"
      and "doc = front @ api @ newline @ newline @ callout"
      using d by (auto simp: synthesizeReadme_def meta_frontmatter_def split: sum.splits)
    with True s show ?thesis
      using read_readme_empty [of zipEntries] by (auto split: option.splits)
  next
    case False
    then obtain e where e: "find_entry ''readme.md'' zipEntries = Some e"
      and ne: "entry_data e \<noteq> []" and r: "read_readme zipEntries = toString_utf8 (entry_data e)"
      using read_readme_empty [of zipEntries] by (auto simp: read_readme_def split: option.splits)
    from False d have x: "existing_readme pkgName version pkgData versionData functionsData
                      (meta_config meta) (m_searchIndex meta) (m_latest meta)
                      (read_readme zipEntries) = Inr doc"
      by simp
    show ?thesis
    proof (cases "truthy functionsData")
      case True
      with x obtain front api where "meta_frontmatter pkgData versionData meta = Inr front"
        and "generateApiDocs functionsData = Inr api"
        and "doc = front @ read_readme zipEntries @ newline @ newline @ api"
        using d by (auto simp: existing_readme_def meta_frontmatter_def split: sum.splits)
      with True False e ne r show ?thesis using toString_utf8_valid by auto
    next
      case nt: False
      then have "generateApiDocs functionsData = Inr []" by (simp add: generateApiDocs_def)
      moreover from x nt obtain front where "meta_frontmatter pkgData versionData meta = Inr front"
        and "doc = front @ read_readme zipEntries"
        using d by (auto simp: existing_readme_def meta_frontmatter_def split: sum.splits)
      ultimately show ?thesis using nt False e ne r toString_utf8_valid by auto
    qed
  qed
qed

lemma example_readme_artifact:
  "build_artifact JSON_parse ''prime'' example_pkg ''0.1.0'' example_version
     (read_readme [example_readme_entry]) example_config example_manifest False
   = Inr (example_readme_page, example_meta)"
  by code_simp

theorem document_shape_witness:
  "\<exists>front api.
     meta_frontmatter example_pkg example_version example_meta = Inr front
     \<and> generateApiDocs example_manifest = Inr api
     \<and> example_readme_page = front @ ''# prime'' @ newline @ newline @ api"
proof -
  have f: "find_entry ''readme.md'' [example_readme_entry] = Some example_readme_entry"
    by code_simp
  have n: "entry_data example_readme_entry \<noteq> []" by (simp add: example_readme_entry_def)
  have v: "valid_utf8 (entry_data example_readme_entry)" by code_simp
  have c: "entry_data example_readme_entry = ''# prime''" by (simp add: example_readme_entry_def)
  have t: "truthy example_manifest" by (simp add: example_manifest_def)
  from document_shape [OF example_readme_artifact] obtain front api where
    "meta_frontmatter example_pkg example_version example_meta = Inr front"
    "generateApiDocs example_manifest = Inr api"
    "example_readme_page = front @ toString_utf8 (entry_data example_readme_entry)
                             @ (if truthy example_manifest then newline @ newline @ api else [])
     \<and> (valid_utf8 (entry_data example_readme_entry)
        \<longrightarrow> toString_utf8 (entry_data example_readme_entry) = entry_data example_readme_entry)"
    unfolding f using n by auto
  with v c t show ?thesis by auto
qed

text \<open>
  Claim C3, as the specification states it, fails for an archive whose readme entry is
  empty: the entry is there, and the emitted document is the synthesised page of the
  repository, not the front matter followed by the (empty) readme text and the API
  reference.
\<close>

theorem document_shape_counterexample:
  "find_entry ''readme.md'' [empty_readme_entry] = Some empty_readme_entry
   \<and> build_artifact JSON_parse ''prime'' example_pkg ''0.1.0'' example_version
       (read_readme [empty_readme_entry]) example_config example_manifest False
     = Inr (example_page, example_meta)
   \<and> meta_frontmatter example_pkg example_version example_meta = Inr example_frontmatter
   \<and> example_page \<noteq> example_frontmatter @ entry_data empty_readme_entry
                      @ newline @ newline @ api_reference (entries_of example_manifest)"
  by code_simp

subsection \<open>The docs folder\<close>

lemma docs_fold:
  "foldl (docs_step outputDir) (evs, found) zipEntries =
     (evs @ concat (map (docs_events outputDir) (filter is_docs_file zipEntries)),
      found \<or> list_ex is_docs_file zipEntries)"
  by (induction zipEntries arbitrary: evs found) (auto simp: docs_step_def docs_events_def)

lemma extract_docs_folder_eq:
  "extract_docs_folder outputDir zipEntries =
     (concat (map (docs_events outputDir) (filter is_docs_file zipEntries)),
      list_ex is_docs_file zipEntries)"
  by (simp add: extract_docs_folder_def docs_fold)












lemma process_version_zip:
  assumes "files ev (archive_path ev versionData) = Some (Zip zipEntries)"
  shows "process_version ev pkgName pkgData version versionData =
           (case version_artifact ev pkgName pkgData version versionData zipEntries of
              Inl e \<Rightarrow> (events_before ev pkgName version zipEntries, Some e)
            | Inr (doc, meta) \<Rightarrow>
                (events_before ev pkgName version zipEntries
                 @ [WriteFile (path_join [version_dir ev pkgName version, ''index.md'']) doc,
                    WriteJson (path_join [version_dir ev pkgName version, ''metadata.json'']) meta],
                 None))"
  using assms
  by (simp add: process_version_def archive_path_def version_dir_def events_before_def
      version_artifact_def extract_docs_folder_eq Let_def split: sum.splits)






subsection \<open>Failures of one version\<close>

lemma process_version_missing:
  "files ev (archive_path ev versionData) = None \<Longrightarrow>
   process_version ev pkgName pkgData version versionData
     = (missing_events ev pkgName version versionData, None)"
  by (simp add: process_version_def archive_path_def version_dir_def missing_events_def Let_def)

lemma process_version_not_zip:
  "files ev (archive_path ev versionData) = Some NotZip \<Longrightarrow>
   process_version ev pkgName pkgData version versionData
     = ([EnsureDir (version_dir ev pkgName version)], Some ZipError)"
  by (simp add: process_version_def archive_path_def version_dir_def Let_def)

lemma process_version_outcome:
  "files ev (archive_path ev versionData) = Some (Zip zipEntries) \<Longrightarrow>
   process_version ev pkgName pkgData version versionData
     = version_outcome ev pkgName pkgData version versionData zipEntries
         (fst (read_project (json_parse ev) pkgName version zipEntries))
         (fst (read_functions (json_parse ev) pkgName version zipEntries))"
  by (simp add: process_version_zip version_outcome_def version_artifact_def)

lemma run_versions_append:
  "run_versions ev pkgName pkgData (xs @ ys) =
     (case run_versions ev pkgName pkgData xs of
        (evs, Some e) \<Rightarrow> (evs, Some e)
      | (evs, None) \<Rightarrow> (evs @ fst (run_versions ev pkgName pkgData ys),
                        snd (run_versions ev pkgName pkgData ys)))"
proof (induction xs)
  case Nil
  then show ?case by simp
next
  case (Cons x xs)
  obtain version versionData where x: "x = (version, versionData)" by (cases x)
  show ?case
    using Cons x by (auto split: prod.splits option.splits)
qed

lemma run_packages_append:
  "run_packages ev (xs @ ys) =
     (case run_packages ev xs of
        (evs, Some e) \<Rightarrow> (evs, Some e)
      | (evs, None) \<Rightarrow> (evs @ fst (run_packages ev ys), snd (run_packages ev ys)))"
proof (induction xs)
  case Nil
  then show ?case by simp
next
  case (Cons x xs)
  obtain pkgName pkgData where x: "x = (pkgName, pkgData)" by (cases x)
  show ?case
    using Cons x by (auto split: prod.splits option.splits)
qed

lemma run_versions_skip:
  assumes "files ev (archive_path ev versionData) = None"
  shows "run_versions ev pkgName pkgData ((version, versionData) # rest)
           = (missing_events ev pkgName version versionData @ fst (run_versions ev pkgName pkgData rest),
              snd (run_versions ev pkgName pkgData rest))"
  by (simp add: process_version_missing [OF assms] split: prod.splits)

lemma run_packages_skip:
  assumes "files ev (archive_path ev versionData) = None"
    and "run_packages ev earlier = (pevs, None)"
    and "versions pkgData = before @ (version, versionData) # rest"
    and "run_versions ev pkgName pkgData before = (evs, None)"
  shows "run_packages ev (earlier @ (pkgName, pkgData) # later) =
           (case run_versions ev pkgName pkgData rest of
              (revs, Some e) \<Rightarrow>
                (pevs @ evs @ missing_events ev pkgName version versionData @ revs, Some e)
            | (revs, None) \<Rightarrow>
                (pevs @ evs @ missing_events ev pkgName version versionData @ revs
                 @ fst (run_packages ev later), snd (run_packages ev later)))"
proof -
  obtain revs r where rest: "run_versions ev pkgName pkgData rest = (revs, r)"
    by (cases "run_versions ev pkgName pkgData rest")
  have v: "run_versions ev pkgName pkgData (versions pkgData)
           = (evs @ missing_events ev pkgName version versionData @ revs, r)"
    unfolding assms(3)
    by (simp add: run_versions_append [of ev pkgName pkgData before] assms(4)
        run_versions_skip [OF assms(1)] rest del: run_versions.simps)
  obtain levs l where later: "run_packages ev later = (levs, l)"
    by (cases "run_packages ev later")
  show ?thesis
    by (cases r) (simp_all add: run_packages_append [of ev earlier] assms(2) v rest later)
qed

lemma read_project_failure:
  "find_entry ''__gsproject__.json'' zipEntries = Some e \<Longrightarrow>
   parse (toString_utf8 (entry_data e)) = None \<Longrightarrow>
   read_project parse pkgName version zipEntries
     = (JObj [], [Warn (''failed to parse __GSPROJECT__.json for '' @ pkgName @ ''@'' @ version)])"
  by (simp add: read_project_def)

lemma read_functions_failure:
  "find_entry ''functions.json'' zipEntries = Some e \<Longrightarrow>
   parse (toString_utf8 (entry_data e)) = None \<Longrightarrow>
   read_functions parse pkgName version zipEntries
     = (JNull, [Warn (''failed to parse functions.json for '' @ pkgName @ ''@'' @ version)])"
  by (simp add: read_functions_def)

lemma version_outcome_events:
  "set (events_before ev pkgName version zipEntries)
     \<subseteq> set (fst (version_outcome ev pkgName pkgData version versionData zipEntries projectConfig
                    functionsData))"
  by (auto simp: version_outcome_def split: sum.splits)

lemma version_outcome_total:
  assumes "assignable projectConfig" and "manifest_defined (manifest_entries functionsData)"
    and "convertible pkgData projectConfig"
  shows "snd (version_outcome ev pkgName pkgData version versionData zipEntries projectConfig
                functionsData) = None"
proof -
  obtain doc meta where
    "build_artifact (json_parse ev) pkgName pkgData version versionData (read_readme zipEntries)
       projectConfig functionsData (list_ex is_docs_file zipEntries) = Inr (doc, meta)"
    using build_artifact_total [OF assms] by blast
  then show ?thesis by (simp add: version_outcome_def)
qed

text \<open>
  Claim C5. A missing archive file is not fatal: the version's output directory is created,
  a warning is logged, nothing else is done for that version, and the loop goes on with the
  next version. The whole run is what came before, these two events, what the later
  versions of the package do and, unless one of them throws, what the later packages do.
  When the project descriptor, or the function manifest, of a version does not parse, a
  warning is logged and the version is processed with the empty object as descriptor, or
  with \<^verbatim>\<open>null\<close> as manifest; it is processed to its end without an error when what is
  left to convert converts (with the empty descriptor: the manifest has no \<^verbatim>\<open>null\<close>
  definition, and the descriptions of the functions, the arguments and the package
  convert to strings).
\<close>

theorem local_failures_degrade:
  "(files ev (archive_path ev versionData) = None \<longrightarrow>
      process_version ev pkgName pkgData version versionData
        = (missing_events ev pkgName version versionData, None)
      \<and> run_versions ev pkgName pkgData ((version, versionData) # rest)
        = (missing_events ev pkgName version versionData @ fst (run_versions ev pkgName pkgData rest),
           snd (run_versions ev pkgName pkgData rest))
      \<and> (run_packages ev earlier = (pevs, None)
         \<and> versions pkgData = before @ (version, versionData) # rest
         \<and> run_versions ev pkgName pkgData before = (evs, None) \<longrightarrow>
           run_packages ev (earlier @ (pkgName, pkgData) # later) =
             (case run_versions ev pkgName pkgData rest of
                (revs, Some e) \<Rightarrow>
                  (pevs @ evs @ missing_events ev pkgName version versionData @ revs, Some e)
              | (revs, None) \<Rightarrow>
                  (pevs @ evs @ missing_events ev pkgName version versionData @ revs
                   @ fst (run_packages ev later), snd (run_packages ev later)))))
   \<and> (files ev (archive_path ev versionData) = Some (Zip zipEntries)
      \<and> find_entry ''__gsproject__.json'' zipEntries = Some projectEntry
      \<and> json_parse ev (toString_utf8 (entry_data projectEntry)) = None \<longrightarrow>
        Warn (''failed to parse __GSPROJECT__.json for '' @ pkgName @ ''@'' @ version)
          \<in> set (fst (process_version ev pkgName pkgData version versionData))
        \<and> process_version ev pkgName pkgData version versionData
          = version_outcome ev pkgName pkgData version versionData zipEntries (JObj [])
              (fst (read_functions (json_parse ev) pkgName version zipEntries))
        \<and> (manifest_defined
              (manifest_entries (fst (read_functions (json_parse ev) pkgName version zipEntries)))
            \<and> joinable (description pkgData) \<longrightarrow>
            snd (process_version ev pkgName pkgData version versionData) = None))
   \<and> (files ev (archive_path ev versionData) = Some (Zip zipEntries)
      \<and> find_entry ''functions.json'' zipEntries = Some functionsEntry
      \<and> json_parse ev (toString_utf8 (entry_data functionsEntry)) = None \<longrightarrow>
        Warn (''failed to parse functions.json for '' @ pkgName @ ''@'' @ version)
          \<in> set (fst (process_version ev pkgName pkgData version versionData))
        \<and> process_version ev pkgName pkgData version versionData
          = version_outcome ev pkgName pkgData version versionData zipEntries
              (fst (read_project (json_parse ev) pkgName version zipEntries)) JNull
        \<and> (assignable (fst (read_project (json_parse ev) pkgName version zipEntries))
            \<and> convertible pkgData (fst (read_project (json_parse ev) pkgName version zipEntries))
            \<longrightarrow> snd (process_version ev pkgName pkgData version versionData) = None))"
proof (intro conjI impI)
  assume m: "files ev (archive_path ev versionData) = None"
  show "process_version ev pkgName pkgData version versionData
          = (missing_events ev pkgName version versionData, None)"
    by (rule process_version_missing [OF m])
  show "run_versions ev pkgName pkgData ((version, versionData) # rest)
        = (missing_events ev pkgName version versionData @ fst (run_versions ev pkgName pkgData rest),
           snd (run_versions ev pkgName pkgData rest))"
    by (rule run_versions_skip [OF m])
  assume "run_packages ev earlier = (pevs, None)
         \<and> versions pkgData = before @ (version, versionData) # rest
         \<and> run_versions ev pkgName pkgData before = (evs, None)"
  then show "run_packages ev (earlier @ (pkgName, pkgData) # later) =
             (case run_versions ev pkgName pkgData rest of
                (revs, Some e) \<Rightarrow>
                  (pevs @ evs @ missing_events ev pkgName version versionData @ revs, Some e)
              | (revs, None) \<Rightarrow>
                  (pevs @ evs @ missing_events ev pkgName version versionData @ revs
                   @ fst (run_packages ev later), snd (run_packages ev later)))"
    using run_packages_skip [OF m] by blast
next
  assume h: "files ev (archive_path ev versionData) = Some (Zip zipEntries)
      \<and> find_entry ''__gsproject__.json'' zipEntries = Some projectEntry
      \<and> json_parse ev (toString_utf8 (entry_data projectEntry)) = None"
  then have rp: "read_project (json_parse ev) pkgName version zipEntries
     = (JObj [], [Warn (''failed to parse __GSPROJECT__.json for '' @ pkgName @ ''@'' @ version)])"
    by (simp add: read_project_failure)
  from h show eq: "process_version ev pkgName pkgData version versionData
          = version_outcome ev pkgName pkgData version versionData zipEntries (JObj [])
              (fst (read_functions (json_parse ev) pkgName version zipEntries))"
    by (simp add: process_version_outcome rp)
  have "Warn (''failed to parse __GSPROJECT__.json for '' @ pkgName @ ''@'' @ version)
          \<in> set (events_before ev pkgName version zipEntries)"
    by (simp add: events_before_def rp)
  then show "Warn (''failed to parse __GSPROJECT__.json for '' @ pkgName @ ''@'' @ version)
          \<in> set (fst (process_version ev pkgName pkgData version versionData))"
    unfolding eq using version_outcome_events by blast
  assume "manifest_defined
              (manifest_entries (fst (read_functions (json_parse ev) pkgName version zipEntries)))
            \<and> joinable (description pkgData)"
  then show "snd (process_version ev pkgName pkgData version versionData) = None"
    unfolding eq by (intro version_outcome_total) (simp_all add: convertible_def joinable_def)
next
  assume h: "files ev (archive_path ev versionData) = Some (Zip zipEntries)
      \<and> find_entry ''functions.json'' zipEntries = Some functionsEntry
      \<and> json_parse ev (toString_utf8 (entry_data functionsEntry)) = None"
  then have rf: "read_functions (json_parse ev) pkgName version zipEntries
     = (JNull, [Warn (''failed to parse functions.json for '' @ pkgName @ ''@'' @ version)])"
    by (simp add: read_functions_failure)
  from h show eq: "process_version ev pkgName pkgData version versionData
          = version_outcome ev pkgName pkgData version versionData zipEntries
              (fst (read_project (json_parse ev) pkgName version zipEntries)) JNull"
    by (simp add: process_version_outcome rf)
  have "Warn (''failed to parse functions.json for '' @ pkgName @ ''@'' @ version)
          \<in> set (events_before ev pkgName version zipEntries)"
    by (simp add: events_before_def rf)
  then show "Warn (''failed to parse functions.json for '' @ pkgName @ ''@'' @ version)
          \<in> set (fst (process_version ev pkgName pkgData version versionData))"
    unfolding eq using version_outcome_events by blast
  assume "assignable (fst (read_project (json_parse ev) pkgName version zipEntries))
            \<and> convertible pkgData (fst (read_project (json_parse ev) pkgName version zipEntries))"
  then show "snd (process_version ev pkgName pkgData version versionData) = None"
    unfolding eq
    by (intro version_outcome_total) (simp_all add: manifest_entries_def manifest_defined_def)
qed

lemma example_later_run:
  "run_versions (example_env3 old) ''prime'' example_pkg2 [(''0.1.0'', example_version)]
   = ([EnsureDir ''/registry/site/src/content/packages/prime/0.1.0'',
       WriteFile ''/registry/site/src/content/packages/prime/0.1.0/index.md'' example_page,
       WriteJson ''/registry/site/src/content/packages/prime/0.1.0/metadata.json'' example_meta],
      None)"
  by code_simp

lemma example_other_run:
  "run_packages (example_env3 old) [(''other'', other_pkg)]
   = ([EnsureDir ''/registry/site/src/content/packages/other/1.0.0'',
       WriteFile ''/registry/site/src/content/packages/other/1.0.0/index.md'' other_page,
       WriteJson ''/registry/site/src/content/packages/other/1.0.0/metadata.json'' other_meta],
      None)"
  by code_simp

theorem local_failures_degrade_witness:
  "run_packages (example_env3 None) [(''prime'', example_pkg2), (''other'', other_pkg)]
   = ([EnsureDir ''/registry/site/src/content/packages/prime/0.0.9'',
       Warn ''Warning: /registry/packages/prime/0.0.9/prime-0.0.9.gspkg not found.'',
       EnsureDir ''/registry/site/src/content/packages/prime/0.1.0'',
       WriteFile ''/registry/site/src/content/packages/prime/0.1.0/index.md'' example_page,
       WriteJson ''/registry/site/src/content/packages/prime/0.1.0/metadata.json'' example_meta,
       EnsureDir ''/registry/site/src/content/packages/other/1.0.0'',
       WriteFile ''/registry/site/src/content/packages/other/1.0.0/index.md'' other_page,
       WriteJson ''/registry/site/src/content/packages/other/1.0.0/metadata.json'' other_meta],
      None)
   \<and> Warn ''failed to parse __GSPROJECT__.json for prime@0.0.9''
       \<in> set (fst (process_version (example_env3 (Some (Zip [broken_descriptor, broken_manifest])))
                     ''prime'' example_pkg2 ''0.0.9'' old_version))
   \<and> Warn ''failed to parse functions.json for prime@0.0.9''
       \<in> set (fst (process_version (example_env3 (Some (Zip [broken_descriptor, broken_manifest])))
                     ''prime'' example_pkg2 ''0.0.9'' old_version))
   \<and> snd (process_version (example_env3 (Some (Zip [broken_descriptor, broken_manifest])))
            ''prime'' example_pkg2 ''0.0.9'' old_version) = None"
proof -
  have m: "files (example_env3 None) (archive_path (example_env3 None) old_version) = None"
    by code_simp
  have me: "missing_events (example_env3 None) ''prime'' ''0.0.9'' old_version
            = [EnsureDir ''/registry/site/src/content/packages/prime/0.0.9'',
               Warn ''Warning: /registry/packages/prime/0.0.9/prime-0.0.9.gspkg not found.'']"
    by code_simp
  have z: "files (example_env3 (Some (Zip [broken_descriptor, broken_manifest])))
             (archive_path (example_env3 (Some (Zip [broken_descriptor, broken_manifest]))) old_version)
           = Some (Zip [broken_descriptor, broken_manifest])"
    by code_simp
  have d: "find_entry ''__gsproject__.json'' [broken_descriptor, broken_manifest] = Some broken_descriptor"
    by code_simp
  have f: "find_entry ''functions.json'' [broken_descriptor, broken_manifest] = Some broken_manifest"
    by code_simp
  have pd: "json_parse (example_env3 (Some (Zip [broken_descriptor, broken_manifest])))
              (toString_utf8 (entry_data broken_descriptor)) = None"
    by code_simp
  have pf: "json_parse (example_env3 (Some (Zip [broken_descriptor, broken_manifest])))
              (toString_utf8 (entry_data broken_manifest)) = None"
    by code_simp
  have rf: "fst (read_functions (json_parse (example_env3 (Some (Zip [broken_descriptor, broken_manifest]))))
                  ''prime'' ''0.0.9'' [broken_descriptor, broken_manifest]) = JNull"
    using read_functions_failure [of "[broken_descriptor, broken_manifest]" broken_manifest
        "json_parse (example_env3 (Some (Zip [broken_descriptor, broken_manifest])))"] f pf
    by simp
  have md: "manifest_defined (manifest_entries JNull)"
    by (simp add: manifest_entries_def manifest_defined_def)
  have jd: "joinable (description example_pkg2)"
    by (simp add: example_pkg2_def example_pkg_def example_description_def joinable_def)
  have e0: "run_packages (example_env3 None) [] = ([], None)" by simp
  have vs: "versions example_pkg2 = [] @ (''0.0.9'', old_version) # [(''0.1.0'', example_version)]"
    by (simp add: example_pkg2_def example_pkg_def)
  have b0: "run_versions (example_env3 None) ''prime'' example_pkg2 [] = ([], None)" by simp
  note t1 = local_failures_degrade [where ev = "example_env3 None" and versionData = old_version
      and pkgName = "''prime''" and pkgData = example_pkg2 and version = "''0.0.9''"
      and rest = "[(''0.1.0'', example_version)]" and earlier = "[]" and pevs = "[]"
      and before = "[]" and evs = "[]" and later = "[(''other'', other_pkg)]"]
  note t2 = local_failures_degrade [where ev = "example_env3 (Some (Zip [broken_descriptor, broken_manifest]))"
      and versionData = old_version and pkgName = "''prime''" and pkgData = example_pkg2
      and version = "''0.0.9''" and zipEntries = "[broken_descriptor, broken_manifest]"
      and projectEntry = broken_descriptor and functionsEntry = broken_manifest]
  from t1 m e0 vs b0
  have "run_packages (example_env3 None) ([] @ (''prime'', example_pkg2) # [(''other'', other_pkg)])
        = (case run_versions (example_env3 None) ''prime'' example_pkg2 [(''0.1.0'', example_version)] of
             (revs, Some e) \<Rightarrow>
               ([] @ [] @ missing_events (example_env3 None) ''prime'' ''0.0.9'' old_version @ revs, Some e)
           | (revs, None) \<Rightarrow>
               ([] @ [] @ missing_events (example_env3 None) ''prime'' ''0.0.9'' old_version @ revs
                @ fst (run_packages (example_env3 None) [(''other'', other_pkg)]),
                snd (run_packages (example_env3 None) [(''other'', other_pkg)])))"
    by blast
  then have a: "run_packages (example_env3 None) [(''prime'', example_pkg2), (''other'', other_pkg)]
   = ([EnsureDir ''/registry/site/src/content/packages/prime/0.0.9'',
       Warn ''Warning: /registry/packages/prime/0.0.9/prime-0.0.9.gspkg not found.'',
       EnsureDir ''/registry/site/src/content/packages/prime/0.1.0'',
       WriteFile ''/registry/site/src/content/packages/prime/0.1.0/index.md'' example_page,
       WriteJson ''/registry/site/src/content/packages/prime/0.1.0/metadata.json'' example_meta,
       EnsureDir ''/registry/site/src/content/packages/other/1.0.0'',
       WriteFile ''/registry/site/src/content/packages/other/1.0.0/index.md'' other_page,
       WriteJson ''/registry/site/src/content/packages/other/1.0.0/metadata.json'' other_meta],
      None)"
    unfolding me example_later_run example_other_run by simp
  from t2 z d pd have b: "Warn (''failed to parse __GSPROJECT__.json for '' @ ''prime'' @ ''@'' @ ''0.0.9'')
       \<in> set (fst (process_version (example_env3 (Some (Zip [broken_descriptor, broken_manifest])))
                     ''prime'' example_pkg2 ''0.0.9'' old_version))"
    by blast
  from t2 z f pf have c: "Warn (''failed to parse functions.json for '' @ ''prime'' @ ''@'' @ ''0.0.9'')
       \<in> set (fst (process_version (example_env3 (Some (Zip [broken_descriptor, broken_manifest])))
                     ''prime'' example_pkg2 ''0.0.9'' old_version))"
    by blast
  from t2 z d pd md jd have e: "snd (process_version (example_env3 (Some (Zip [broken_descriptor, broken_manifest])))
            ''prime'' example_pkg2 ''0.0.9'' old_version) = None"
    unfolding rf by blast
  from a b c e show ?thesis by simp
qed

lemma main_abort:
  assumes "index_json ev = Some registry" and "run_packages ev registry = (evs, Some e)"
  shows "main ev = [EnsureDir (content_dir ev), EmptyDir (content_dir ev)] @ evs @ [LogError e]"
  using assms by (simp add: main_def extractDocs_def)

text \<open>
  Claim C9. When the archive file of a version exists but is not a zip container, opening
  it throws: the error leaves the loop over the versions and the loop over the packages,
  so the run consists of what came before, the creation of that version's output directory
  and the logging of the error by the handler of line 197. No later version of this or of
  any later package is processed, whatever their archives are.
\<close>

theorem unreadable_archive_aborts:
  assumes "files ev (archive_path ev versionData) = Some NotZip"
  shows "process_version ev pkgName pkgData version versionData
           = ([EnsureDir (version_dir ev pkgName version)], Some ZipError)
       \<and> (run_versions ev pkgName pkgData before = (evs, None) \<longrightarrow>
            run_versions ev pkgName pkgData (before @ (version, versionData) # rest)
              = (evs @ [EnsureDir (version_dir ev pkgName version)], Some ZipError))
       \<and> (run_packages ev earlier = (pevs, None)
          \<and> versions pkgData = before @ (version, versionData) # rest
          \<and> run_versions ev pkgName pkgData before = (evs, None) \<longrightarrow>
            run_packages ev (earlier @ (pkgName, pkgData) # later)
              = (pevs @ evs @ [EnsureDir (version_dir ev pkgName version)], Some ZipError)
            \<and> (index_json ev = Some (earlier @ (pkgName, pkgData) # later) \<longrightarrow>
                 main ev = [EnsureDir (content_dir ev), EmptyDir (content_dir ev)] @ pevs @ evs
                           @ [EnsureDir (version_dir ev pkgName version), LogError ZipError]))"
proof -
  note nz = process_version_not_zip [OF assms, of pkgName pkgData version]
  have v: "run_versions ev pkgName pkgData (before @ (version, versionData) # rest)
             = (evs @ [EnsureDir (version_dir ev pkgName version)], Some ZipError)"
    if "run_versions ev pkgName pkgData before = (evs, None)"
    using that by (simp add: run_versions_append [of ev pkgName pkgData before] nz)
  have p: "run_packages ev (earlier @ (pkgName, pkgData) # later)
             = (pevs @ evs @ [EnsureDir (version_dir ev pkgName version)], Some ZipError)"
    if "run_packages ev earlier = (pevs, None)"
      "versions pkgData = before @ (version, versionData) # rest"
      "run_versions ev pkgName pkgData before = (evs, None)"
    using that v [OF that(3)] by (simp add: run_packages_append [of ev earlier])
  have m: "main ev = [EnsureDir (content_dir ev), EmptyDir (content_dir ev)] @ pevs @ evs
                           @ [EnsureDir (version_dir ev pkgName version), LogError ZipError]"
    if "run_packages ev earlier = (pevs, None)"
      "versions pkgData = before @ (version, versionData) # rest"
      "run_versions ev pkgName pkgData before = (evs, None)"
      "index_json ev = Some (earlier @ (pkgName, pkgData) # later)"
    using main_abort [OF that(4) p [OF that(1,2,3)]] by simp
  from nz v p m show ?thesis by blast
qed

theorem unreadable_archive_aborts_witness:
  "main (example_env2 (Some NotZip))
   = [EnsureDir ''/registry/site/src/content/packages'',
      EmptyDir ''/registry/site/src/content/packages'',
      EnsureDir ''/registry/site/src/content/packages/prime/0.0.9'',
      LogError ZipError]"
proof -
  have z: "files (example_env2 (Some NotZip)) (archive_path (example_env2 (Some NotZip)) old_version)
           = Some NotZip"
    by code_simp
  have r: "index_json (example_env2 (Some NotZip)) = Some ([] @ (''prime'', example_pkg2) # [])"
    by (simp add: example_env2_def)
  have vs: "versions example_pkg2 = [] @ (''0.0.9'', old_version) # [(''0.1.0'', example_version)]"
    by (simp add: example_pkg2_def example_pkg_def)
  have c: "content_dir (example_env2 (Some NotZip)) = ''/registry/site/src/content/packages''"
    by (simp add: example_env2_def)
  have d: "version_dir (example_env2 (Some NotZip)) ''prime'' ''0.0.9''
           = ''/registry/site/src/content/packages/prime/0.0.9''"
    by code_simp
  from unreadable_archive_aborts [OF z, where pkgName = "''prime''" and pkgData = example_pkg2
      and version = "''0.0.9''" and before = "[]" and evs = "[]" and earlier = "[]" and pevs = "[]"
      and rest = "[(''0.1.0'', example_version)]" and later = "[]"] r vs
  have "main (example_env2 (Some NotZip))
        = [EnsureDir (content_dir (example_env2 (Some NotZip))),
           EmptyDir (content_dir (example_env2 (Some NotZip)))] @ [] @ []
          @ [EnsureDir (version_dir (example_env2 (Some NotZip)) ''prime'' ''0.0.9''),
             LogError ZipError]"
    by simp
  then show ?thesis unfolding c d by simp
qed

subsection \<open>The dependency text\<close>

lemma takeWhile_name:
  "list_all is_name_char n \<Longrightarrow> \<not> is_name_char c \<Longrightarrow>
   takeWhile is_name_char (n @ c # r) = n \<and> dropWhile is_name_char (n @ c # r) = c # r"
  by (induction n) simp_all

text \<open>For the specifiers of the registry, a name of letters, digits and hyphens alone or
  followed by \<^verbatim>\<open>@\<close> or \<^verbatim>\<open>>=\<close> and a version on the same line, \<^verbatim>\<open>depName\<close> is the name.\<close>

lemma dep_name_specifier:
  assumes "list_all is_name_char n" and "n \<noteq> []" and "\<not> has_line_terminator r"
  shows "dep_name n = n" and "dep_name (n @ ''@'' @ r) = n" and "dep_name (n @ ''>='' @ r) = n"
proof -
  from assms(1) have tw: "takeWhile is_name_char n = n" and dw: "dropWhile is_name_char n = []"
    by (simp_all add: list_all_iff)
  show "dep_name n = n"
    unfolding dep_name_def Let_def tw dw using assms(2) by simp
  have a: "\<not> is_name_char (CHR ''@'')" and g: "\<not> is_name_char (CHR ''>'')"
    by (simp_all add: is_name_char_def)
  from takeWhile_name [OF assms(1) a, of r] assms(2,3)
  show "dep_name (n @ ''@'' @ r) = n" by (simp add: dep_name_def)
  from takeWhile_name [OF assms(1) g, of "CHR ''='' # r"] assms(2,3)
  show "dep_name (n @ ''>='' @ r) = n" by (simp add: dep_name_def)
qed

lemma contains_skip: "c \<noteq> p \<Longrightarrow> contains (c # cs) (p # ps) = contains cs (p # ps)"
  by (simp add: startsWith_def)

lemma contains_hit: "contains (p # cs) (p # ps) = (take (length ps) cs = ps \<or> contains cs (p # ps))"
  by (simp add: startsWith_def)

lemma example_page_no_dependency_text: "\<not> contains example_page ''_No dependencies_''"
  unfolding example_page_def newline_def
  by (simp add: contains_skip contains_hit del: contains.simps(2))

lemma linked_page_no_link: "\<not> contains linked_page ''/packages/pkg''"
  unfolding linked_page_def newline_def
  by (simp add: contains_skip contains_hit del: contains.simps(2))

text \<open>
  Claim C6. \<^verbatim>\<open>synthesizeReadme\<close> computes the dependency text the claim describes into its
  local variable \<^verbatim>\<open>deps\<close>, and the page it returns does not use it. For the package
  \<^verbatim>\<open>prime\<close>, without dependencies, the text is \<^verbatim>\<open>_No dependencies_\<close> and the synthesised
  page, the one of the repository, does not contain it; for the dependencies
  \<^verbatim>\<open>pkg>=1.2.0\<close> and \<^verbatim>\<open>pkg@2.0.0\<close> the text has two links to \<^verbatim>\<open>/packages/pkg\<close> and the
  synthesised page contains no such link.
\<close>

theorem synthesized_page_omits_dependency_text:
  "deps_text example_version = ''_No dependencies_''
   \<and> synthesizeReadme ''prime'' ''0.1.0'' example_pkg example_version example_manifest
       (meta_config example_meta) example_index True = Inr example_page
   \<and> \<not> contains example_page ''_No dependencies_''
   \<and> deps_text linked_version
       = ''- [pkg>=1.2.0](/packages/pkg)'' @ newline @ ''- [pkg@2.0.0](/packages/pkg)''
   \<and> synthesizeReadme ''prime'' ''0.1.0'' example_pkg linked_version example_manifest
       (meta_config example_meta) example_index True = Inr linked_page
   \<and> \<not> contains linked_page ''/packages/pkg''"
proof -
  have a: "deps_text example_version = ''_No dependencies_''" by code_simp
  have b: "synthesizeReadme ''prime'' ''0.1.0'' example_pkg example_version example_manifest
       (meta_config example_meta) example_index True = Inr example_page" by code_simp
  have c: "deps_text linked_version
       = ''- [pkg>=1.2.0](/packages/pkg)'' @ newline @ ''- [pkg@2.0.0](/packages/pkg)''"
    by code_simp
  have d: "synthesizeReadme ''prime'' ''0.1.0'' example_pkg linked_version example_manifest
       (meta_config example_meta) example_index True = Inr linked_page" by code_simp
  from a b c d example_page_no_dependency_text linked_page_no_link show ?thesis by blast
qed

end
